theory Spec2Isabelle
  imports Complex_Main "HOL-Library.Sublist"
begin

chapter \<open>Property tracker: extraction heuristics, reconciliation and schema migration\<close>

text \<open>
  A shallow embedding of \<^verbatim>\<open>src/lib/scraper.ts\<close> (the number normaliser, the
  construction-year heuristic and the image pass of \<^verbatim>\<open>scrapeProperty\<close>) and of
  \<^verbatim>\<open>src/lib/storage.ts\<close> (the schema migrator and the operations on the stored
  collection). All definitions come first; the lemmas and theorems follow.
\<close>

section \<open>Strings and numbers of the source language\<close>

text \<open>
  A JavaScript string is a sequence of UTF-16 code units. The regular expressions of the
  scraper match on code units (no \<^verbatim>\<open>u\<close> flag), and several of their literals lie
  outside ASCII, so a string is a list of code units, each a natural number.
  \<open>lit\<close> embeds an ASCII literal of the source.
\<close>

type_synonym jsstring = "nat list"

definition lit :: "string \<Rightarrow> jsstring" where
  "lit s = map of_char s"

text \<open>
  A JavaScript number is an IEEE 754 double. Besides \<^verbatim>\<open>NaN\<close> and the two
  infinities, a number is represented by the rational it denotes, and every operation
  gives the double nearest to the exact result, ties to the even mantissa, as the
  standard's default rounding does (the model agrees with the source on overflow to
  infinity and on subnormal results as well). The sign of a zero is not represented: no
  function below tells the two zeros apart.
\<close>

datatype number = NaN | PosInf | NegInf | Num rat

text \<open>The number of binary digits of a natural number.\<close>

fun bit_length :: "nat \<Rightarrow> nat" where
  "bit_length n = (if n = 0 then 0 else Suc (bit_length (n div 2)))"

declare bit_length.simps [simp del]

text \<open>
  For a positive rational \<open>q\<close>, the integer \<open>k\<close> with \<open>2^k \<le> q < 2^(k+1)\<close>; and
  \<open>q\<close> times \<open>2^e\<close> for an integer \<open>e\<close>.
\<close>

definition ilog2 :: "rat \<Rightarrow> int" where
  "ilog2 q = (if 1 \<le> q then int (bit_length (nat \<lfloor>q\<rfloor>)) - 1
              else - int (bit_length (nat (\<lceil>1 / q\<rceil> - 1))))"

definition scale2 :: "rat \<Rightarrow> int \<Rightarrow> rat" where
  "scale2 q e = (if 0 \<le> e then q * 2 ^ nat e else q / 2 ^ nat (- e))"

definition round_half_even :: "rat \<Rightarrow> int" where
  "round_half_even r =
     (if r - of_int \<lfloor>r\<rfloor> < 1 / 2 then \<lfloor>r\<rfloor>
      else if 1 / 2 < r - of_int \<lfloor>r\<rfloor> then \<lfloor>r\<rfloor> + 1
      else if even \<lfloor>r\<rfloor> then \<lfloor>r\<rfloor> else \<lfloor>r\<rfloor> + 1)"

text \<open>
  The exponent of the double nearest to a positive \<open>q\<close>: the mantissa has 53 binary
  digits, and the exponent of a subnormal double is -1074. The nearest double is the
  mantissa, rounded, at that exponent; from \<open>2^1024\<close> on it is infinity.
\<close>

definition double_exponent :: "rat \<Rightarrow> int" where
  "double_exponent q = max (ilog2 q - 52) (- 1074)"

definition nearest_double :: "rat \<Rightarrow> rat" where
  "nearest_double q =
     scale2 (of_int (round_half_even (scale2 q (- double_exponent q)))) (double_exponent q)"

definition round_pos :: "rat \<Rightarrow> number" where
  "round_pos q = (if 2 ^ 1024 \<le> nearest_double q then PosInf else Num (nearest_double q))"

fun num_neg :: "number \<Rightarrow> number" where
  "num_neg NaN = NaN"
| "num_neg PosInf = NegInf"
| "num_neg NegInf = PosInf"
| "num_neg (Num a) = Num (- a)"

definition round_double :: "rat \<Rightarrow> number" where
  "round_double q =
     (if q = 0 then Num 0 else if 0 < q then round_pos q else num_neg (round_pos (- q)))"

text \<open>The sign of a number that is not \<^verbatim>\<open>NaN\<close>, and the infinity of a sign.\<close>

fun sign_of :: "number \<Rightarrow> int" where
  "sign_of NaN = 0"
| "sign_of PosInf = 1"
| "sign_of NegInf = - 1"
| "sign_of (Num a) = (if a = 0 then 0 else if 0 < a then 1 else - 1)"

definition inf_of_sign :: "int \<Rightarrow> number" where
  "inf_of_sign s = (if s = 0 then NaN else if 0 < s then PosInf else NegInf)"

text \<open>\<^verbatim>\<open>x * y\<close>, \<^verbatim>\<open>x + y\<close> and \<^verbatim>\<open>x - y\<close>.\<close>

fun num_mul :: "number \<Rightarrow> number \<Rightarrow> number" where
  "num_mul (Num a) (Num b) = round_double (a * b)"
| "num_mul NaN y = NaN"
| "num_mul x NaN = NaN"
| "num_mul x y = inf_of_sign (sign_of x * sign_of y)"

fun num_add :: "number \<Rightarrow> number \<Rightarrow> number" where
  "num_add (Num a) (Num b) = round_double (a + b)"
| "num_add NaN y = NaN"
| "num_add x NaN = NaN"
| "num_add PosInf NegInf = NaN"
| "num_add NegInf PosInf = NaN"
| "num_add PosInf y = PosInf"
| "num_add NegInf y = NegInf"
| "num_add x PosInf = PosInf"
| "num_add x NegInf = NegInf"




text \<open>\<^verbatim>\<open>x || 0\<close> on a number: \<^verbatim>\<open>NaN\<close> and \<^verbatim>\<open>0\<close> are falsy.\<close>

fun num_or_zero :: "number \<Rightarrow> number" where
  "num_or_zero NaN = Num 0"
| "num_or_zero x = x"

definition is_digit :: "nat \<Rightarrow> bool" where
  "is_digit c \<longleftrightarrow> 0x30 \<le> c \<and> c \<le> 0x39"

text \<open>The character class \<^verbatim>\<open>[0-9\.]\<close>.\<close>

definition is_numch :: "nat \<Rightarrow> bool" where
  "is_numch c \<longleftrightarrow> is_digit c \<or> c = 0x2E"

text \<open>The class \<^verbatim>\<open>\s\<close>: white space and line terminators of ECMAScript.\<close>

definition is_space :: "nat \<Rightarrow> bool" where
  "is_space c \<longleftrightarrow>
     c = 0x09 \<or> c = 0x0A \<or> c = 0x0B \<or> c = 0x0C \<or> c = 0x0D \<or> c = 0x20 \<or> c = 0xA0 \<or>
     c = 0x1680 \<or> (0x2000 \<le> c \<and> c \<le> 0x200A) \<or> c = 0x2028 \<or> c = 0x2029 \<or>
     c = 0x202F \<or> c = 0x205F \<or> c = 0x3000 \<or> c = 0xFEFF"


text \<open>The value of a string of decimal digits.\<close>

definition digits_val :: "jsstring \<Rightarrow> nat" where
  "digits_val ds = foldl (\<lambda>a c. 10 * a + (c - 0x30)) 0 ds"

text \<open>
  \<^verbatim>\<open>parseFloat\<close> on the strings it is given here, which are runs of digits and dots (no
  sign, exponent or leading white space can occur): the longest prefix of the form
  digits, optional dot, digits is read, and the result is the double nearest to the decimal
  it denotes; a prefix without any digit gives \<^verbatim>\<open>NaN\<close>.
\<close>

fun fraction_digits :: "jsstring \<Rightarrow> jsstring" where
  "fraction_digits [] = []"
| "fraction_digits (c # t) = (if c = 0x2E then takeWhile is_digit t else [])"

definition parseFloat :: "jsstring \<Rightarrow> number" where
  "parseFloat s =
     (if takeWhile is_digit s = [] \<and> fraction_digits (dropWhile is_digit s) = [] then NaN
      else round_double (of_nat (digits_val (takeWhile is_digit s))
                + of_nat (digits_val (fraction_digits (dropWhile is_digit s)))
                  / 10 ^ length (fraction_digits (dropWhile is_digit s))))"


section \<open>scraper.ts: parseJapaneseNumber\<close>

text \<open>
  The match of
  \<^verbatim>\<open>/([0-9\.]+)\s*M\s*([0-9\.]*)|([0-9\.]+)/\<close> (\<^verbatim>\<open>M\<close> written for the character U+4E07, ten thousand).
  No alternative can match before the first character of class \<^verbatim>\<open>[0-9\.]\<close>. At
  that character the first group takes the whole run (a shorter one would have to be
  followed by white space or U+4E07, but is followed by a character of the run); if optional
  white space and U+4E07 follow, the first alternative matches with the second group the
  run after further white space, else the second alternative matches the run.
  \<open>Man g1 g2\<close> stands for a match of the first alternative with groups 1 and 2,
  \<open>Bare g3\<close> for a match of the second with group 3.
\<close>

datatype price_match = Man jsstring jsstring | Bare jsstring

fun after_run :: "jsstring \<Rightarrow> jsstring \<Rightarrow> price_match" where
  "after_run run [] = Bare run"
| "after_run run (m # after) =
     (if m = 0x4E07 then Man run (takeWhile is_numch (dropWhile is_space after)) else Bare run)"

fun match_price :: "jsstring \<Rightarrow> price_match option" where
  "match_price [] = None"
| "match_price (c # cs) =
     (if is_numch c
      then Some (after_run (takeWhile is_numch (c # cs))
                   (dropWhile is_space (dropWhile is_numch (c # cs))))
      else match_price cs)"

text \<open>\<^verbatim>\<open>val.replace(/,/g, '')\<close>\<close>

definition strip_commas :: "jsstring \<Rightarrow> jsstring" where
  "strip_commas val = filter (\<lambda>c. c \<noteq> 0x2C) val"

fun price_value :: "price_match option \<Rightarrow> number" where
  "price_value None = Num 0"
| "price_value (Some (Man g1 g2)) =
     num_add (num_mul (parseFloat g1) (Num 10000)) (if g2 = [] then Num 0 else parseFloat g2)"
| "price_value (Some (Bare g3)) = num_or_zero (parseFloat g3)"

definition parseJapaneseNumber :: "jsstring \<Rightarrow> number" where
  "parseJapaneseNumber val =
     (if val = [] then Num 0 else price_value (match_price (strip_commas val)))"





section \<open>scraper.ts: the construction-year heuristic of scrapeProperty\<close>















subsection \<open>The policy, stated on positions of the text\<close>

text \<open>
  The statements below describe the three kinds of year expression by where they stand in
  the text, without any search. \<open>drop k body\<close> is the text from offset \<open>k\<close> on.
\<close>










section \<open>scraper.ts: the image pass of scrapeProperty\<close>

text \<open>
  What the page offers to the image pass: the \<^verbatim>\<open>content\<close> of the
  \<^verbatim>\<open>og:image\<close> meta element (\<open>None\<close> for \<^verbatim>\<open>null\<close>) and, for every selector,
  the elements \<^verbatim>\<open>page.locator(sel).all()\<close> returns, each with the four attributes
  the pass reads. The page answers every call; a call that throws is caught by the source
  and only ends the pass over the selector at hand.
\<close>

record img_element =
  attr_rel :: "jsstring option"
  attr_data_src :: "jsstring option"
  attr_data_original :: "jsstring option"
  attr_src :: "jsstring option"

record document =
  og_image :: "jsstring option"
  locator :: "jsstring \<Rightarrow> img_element list"

definition gallerySelectors :: "jsstring list" where
  "gallerySelectors =
     [lit ''.p-article-pc-hero__image'',
      lit ''.p-timeline__photoImage img'',
      lit ''.p-article-pc-info-summary__layout img'',
      lit ''.property_view_main-item-img img'',
      lit ''.property_view_object-img img'',
      lit ''.bh-detailSummary_image img'',
      lit ''.mod-packData img'',
      lit ''.img_box img'',
      lit ''.lazyloader img'']"

text \<open>\<^verbatim>\<open>a || b\<close> on attribute values: \<^verbatim>\<open>null\<close> and the empty string are falsy.\<close>

fun or_else :: "jsstring option \<Rightarrow> jsstring option \<Rightarrow> jsstring option" where
  "or_else None b = b"
| "or_else (Some a) b = (if a = [] then b else Some a)"

definition img_src :: "img_element \<Rightarrow> jsstring option" where
  "img_src img =
     or_else (attr_rel img) (or_else (attr_data_src img) (or_else (attr_data_original img) (attr_src img)))"

definition startsWith :: "jsstring \<Rightarrow> jsstring \<Rightarrow> bool" where
  "startsWith s p \<longleftrightarrow> take (length p) s = p"

text \<open>\<^verbatim>\<open>s.includes(p)\<close> on strings.\<close>

fun str_includes :: "jsstring \<Rightarrow> jsstring \<Rightarrow> bool" where
  "str_includes [] p \<longleftrightarrow> p = []"
| "str_includes (c # cs) p \<longleftrightarrow> startsWith (c # cs) p \<or> str_includes cs p"

fun accepted_src :: "jsstring list \<Rightarrow> jsstring option \<Rightarrow> bool" where
  "accepted_src images None \<longleftrightarrow> False"
| "accepted_src images (Some src) \<longleftrightarrow>
     src \<noteq> [] \<and> startsWith src (lit ''http'') \<and> src \<notin> set images
     \<and> \<not> str_includes src (lit ''spacer.gif'')"

text \<open>The inner loop over the elements of one selector.\<close>

fun push_imgs :: "jsstring list \<Rightarrow> img_element list \<Rightarrow> jsstring list" where
  "push_imgs images [] = images"
| "push_imgs images (img # imgs) =
     (if accepted_src images (img_src img) then push_imgs (images @ [the (img_src img)]) imgs
      else push_imgs images imgs)"

text \<open>The outer loop over the selectors, with its \<^verbatim>\<open>break\<close>.\<close>

fun gallery_loop :: "document \<Rightarrow> jsstring list \<Rightarrow> jsstring list \<Rightarrow> jsstring list" where
  "gallery_loop doc images [] = images"
| "gallery_loop doc images (sel # sels) =
     (if length images \<ge> 12 then images
      else gallery_loop doc (push_imgs images (locator doc sel)) sels)"

fun og_images :: "jsstring option \<Rightarrow> jsstring list" where
  "og_images None = []"
| "og_images (Some og) = (if og = [] then [] else [og])"

text \<open>Lines 119 to 147: \<^verbatim>\<open>data.images\<close> starts empty.\<close>

definition extract_images :: "document \<Rightarrow> jsstring list" where
  "extract_images doc = gallery_loop doc (og_images (og_image doc)) gallerySelectors"

text \<open>
  Two pages. On the first, the first gallery selector matches thirteen elements whose
  \<^verbatim>\<open>src\<close> attributes are thirteen different absolute addresses, and nothing else
  matches. On the second, the \<^verbatim>\<open>og:image\<close> element holds a relative address and no
  selector matches.
\<close>

definition img_with_src :: "jsstring \<Rightarrow> img_element" where
  "img_with_src s = \<lparr>attr_rel = None, attr_data_src = None, attr_data_original = None, attr_src = Some s\<rparr>"

definition thirteen_srcs :: "jsstring list" where
  "thirteen_srcs =
     [lit ''http://h/a'', lit ''http://h/b'', lit ''http://h/c'', lit ''http://h/d'',
      lit ''http://h/e'', lit ''http://h/f'', lit ''http://h/g'', lit ''http://h/h'',
      lit ''http://h/i'', lit ''http://h/j'', lit ''http://h/k'', lit ''http://h/l'',
      lit ''http://h/m'']"

definition thirteen_img_document :: document where
  "thirteen_img_document =
     \<lparr>og_image = None,
      locator = (\<lambda>sel. if sel = lit ''.p-article-pc-hero__image'' then map img_with_src thirteen_srcs else [])\<rparr>"

definition relative_og_document :: document where
  "relative_og_document = \<lparr>og_image = Some (lit ''/img/top.jpg''), locator = (\<lambda>sel. [])\<rparr>"

section \<open>storage.ts: the data model\<close>

text \<open>
  An optional property of an object (\<^verbatim>\<open>name?: T\<close>) is in one of three states: the
  key is missing, the key is there with the value \<^verbatim>\<open>undefined\<close>, or it holds a
  value. Reading gives \<^verbatim>\<open>undefined\<close> in the first two; the spread
  \<^verbatim>\<open>{...a, ...b}\<close> tells them apart, since it copies every key that \<^verbatim>\<open>b\<close> has.
\<close>

datatype 'a optional = Missing | Undefined | Present 'a

text \<open>One key of \<^verbatim>\<open>{...a, ...b}\<close>: the value in \<^verbatim>\<open>b\<close> wins when the key is there.\<close>

fun over :: "'a optional \<Rightarrow> 'a optional \<Rightarrow> 'a optional" where
  "over cur Missing = cur"
| "over cur Undefined = Undefined"
| "over cur (Present v) = Present v"

record Fees =
  management :: "number optional"
  repair :: "number optional"
  parking :: "number optional"

record PropertyData =
  title :: jsstring
  price :: jsstring
  monthlyPayment :: "jsstring optional"
  url :: jsstring
  images :: "jsstring list"
  station :: "jsstring optional"
  stationMinute :: "number optional"
  yearBuilt :: "number optional"
  area :: "number optional"
  isFreehold :: "bool optional"
  units :: "number optional"
  fees :: "Fees optional"
  parkingStatus :: "jsstring optional"
  renovated :: "bool optional"

datatype score = Good | Bad

text \<open>\<^verbatim>\<open>score\<close> is \<^verbatim>\<open>'good' | 'bad' | null\<close>; \<open>None\<close> is \<^verbatim>\<open>null\<close>.\<close>

record UserRating =
  userId :: jsstring
  score :: "score option"
  comment :: jsstring
  updatedAt :: jsstring

text \<open>
  The pair \<^verbatim>\<open>{score, comment}\<close>: the \<^verbatim>\<open>ratingData\<close> argument of
  \<^verbatim>\<open>updateRating\<close>, and a partner's rating in the legacy bundle.
\<close>

record RatingData =
  rd_score :: "score option"
  rd_comment :: jsstring

text \<open>
  \<^verbatim>\<open>prop.ratings\<close> as the file may hold it, the three shapes \<^verbatim>\<open>migrateDb\<close>
  tells apart: falsy (absent), the legacy bundle \<^verbatim>\<open>{partnerA, partnerB}\<close> with either
  partner possibly absent, or the list of the interface \<^verbatim>\<open>PropertyWithId\<close>.
\<close>

datatype ratings = NoRatings | LegacyRatings "RatingData option" "RatingData option" | RatingList "UserRating list"

datatype PropertyStatus =
  Considering | Exterior_viewed | Viewing_scheduled | Viewed | Applying | Contracted | Excluded | Sold_out

text \<open>The field \<^verbatim>\<open>id\<close> is named \<open>id'\<close>.\<close>

record PropertyWithId = PropertyData +
  id' :: jsstring
  createdAt :: jsstring
  status :: PropertyStatus
  ratings :: ratings
  manuallyEditedFields :: "jsstring list optional"

text \<open>The \<^verbatim>\<open>id\<close> of a \<^verbatim>\<open>UserConfig\<close> is named \<open>user_id\<close>.\<close>

record UserConfig =
  user_id :: jsstring
  name :: jsstring
  icon :: jsstring

record LoanSettings =
  interestRate :: number
  termYears :: number
  downPayment :: number

text \<open>A partner of the legacy settings; both keys are read with a default.\<close>

record PartnerConfig =
  partner_name :: "jsstring option"
  partner_icon :: "jsstring option"

text \<open>
  \<^verbatim>\<open>db.settings\<close> as the file may hold it: \<^verbatim>\<open>users\<close> and \<^verbatim>\<open>loan\<close> of
  \<^verbatim>\<open>UserSettings\<close>, either possibly absent, and the legacy keys \<^verbatim>\<open>partnerA\<close> and
  \<^verbatim>\<open>partnerB\<close>.
\<close>

record Settings =
  users :: "UserConfig list option"
  loan :: "LoanSettings option"
  partnerA :: "PartnerConfig option"
  partnerB :: "PartnerConfig option"

text \<open>The parsed \<^verbatim>\<open>db.json\<close>; \<^verbatim>\<open>migrateDb\<close> and \<^verbatim>\<open>getProperties\<close> allow for either key to be absent.\<close>

record Db =
  properties :: "PropertyWithId list option"
  settings :: "Settings option"

text \<open>U+30E6 U+30FC U+30B6 U+30FC followed by a digit: the default user names; U+1F464 as a surrogate pair: the default icon.\<close>

definition default_name1 :: jsstring where
  "default_name1 = [0x30E6, 0x30FC, 0x30B6, 0x30FC, 0x31]"

definition default_name2 :: jsstring where
  "default_name2 = [0x30E6, 0x30FC, 0x30B6, 0x30FC, 0x32]"

definition default_icon :: jsstring where
  "default_icon = [0xD83D, 0xDC64]"

definition default_loan :: LoanSettings where
  "default_loan = \<lparr>interestRate = Num (1 / 2), termYears = Num 35, downPayment = Num 0\<rparr>"

definition default_user :: UserConfig where
  "default_user = \<lparr>user_id = lit ''u1'', name = default_name1, icon = default_icon\<rparr>"

definition defaultDb :: Db where
  "defaultDb = \<lparr>properties = Some [],
                settings = Some \<lparr>users = Some [default_user], loan = Some default_loan,
                                 partnerA = None, partnerB = None\<rparr>\<rparr>"

section \<open>storage.ts: migrateDb\<close>

text \<open>\<^verbatim>\<open>a || d\<close> on a string that may be absent: absent and empty are falsy.\<close>

fun string_or :: "jsstring option \<Rightarrow> jsstring \<Rightarrow> jsstring" where
  "string_or None d = d"
| "string_or (Some a) d = (if a = [] then d else a)"

text \<open>\<^verbatim>\<open>if (oldSettings.partnerX) users.push({...})\<close>\<close>

fun legacy_user :: "jsstring \<Rightarrow> jsstring \<Rightarrow> PartnerConfig option \<Rightarrow> UserConfig list" where
  "legacy_user uid dname None = []"
| "legacy_user uid dname (Some p) =
     [\<lparr>user_id = uid, name = string_or (partner_name p) dname, icon = string_or (partner_icon p) default_icon\<rparr>]"

definition legacy_users :: "Settings \<Rightarrow> UserConfig list" where
  "legacy_users old =
     legacy_user (lit ''u1'') default_name1 (partnerA old) @ legacy_user (lit ''u2'') default_name2 (partnerB old)"

definition synth_users :: "Settings \<Rightarrow> UserConfig list" where
  "synth_users old = (if legacy_users old = [] then [default_user] else legacy_users old)"

text \<open>\<^verbatim>\<open>db.settings || {}\<close>\<close>

definition no_settings :: Settings where
  "no_settings = \<lparr>users = None, loan = None, partnerA = None, partnerB = None\<rparr>"

text \<open>\<^verbatim>\<open>!db.settings.users || db.settings.users.length === 0\<close>\<close>

fun lacks_users :: "UserConfig list option \<Rightarrow> bool" where
  "lacks_users None \<longleftrightarrow> True"
| "lacks_users (Some us) \<longleftrightarrow> us = []"

text \<open>
  The settings step; the second component tells whether \<^verbatim>\<open>changed\<close> was set.
\<close>

fun migrate_settings :: "Settings option \<Rightarrow> Settings \<times> bool" where
  "migrate_settings None =
     (\<lparr>users = Some (synth_users no_settings), loan = Some default_loan, partnerA = None, partnerB = None\<rparr>, True)"
| "migrate_settings (Some st) =
     (if lacks_users (users st)
      then (\<lparr>users = Some (synth_users st), loan = Some default_loan, partnerA = None, partnerB = None\<rparr>, True)
      else if loan st = None then (st\<lparr>loan := Some default_loan\<rparr>, True)
      else (st, False))"

text \<open>
  \<^verbatim>\<open>if (old.partnerX && (old.partnerX.score || old.partnerX.comment)) newRatings.push({...})\<close>
\<close>

fun partner_entry :: "jsstring \<Rightarrow> jsstring \<Rightarrow> RatingData option \<Rightarrow> UserRating list" where
  "partner_entry uid created None = []"
| "partner_entry uid created (Some r) =
     (if rd_score r \<noteq> None \<or> rd_comment r \<noteq> []
      then [\<lparr>userId = uid, score = rd_score r, comment = rd_comment r, updatedAt = created\<rparr>]
      else [])"

text \<open>
  The two statements
  \<^verbatim>\<open>if (x === 'user-a') { x = 'u1'; changed = true; } if (x === 'user-b') { x = 'u2'; changed = true; }\<close>
  in sequence, on an identifier \<open>x\<close>.
\<close>

definition rename_a :: "jsstring \<Rightarrow> jsstring" where
  "rename_a x = (if x = lit ''user-a'' then lit ''u1'' else x)"

definition rename_b :: "jsstring \<Rightarrow> jsstring" where
  "rename_b x = (if x = lit ''user-b'' then lit ''u2'' else x)"

definition rename_id :: "jsstring \<Rightarrow> jsstring" where
  "rename_id x = rename_b (rename_a x)"

definition renames :: "jsstring \<Rightarrow> bool" where
  "renames x \<longleftrightarrow> x = lit ''user-a'' \<or> rename_a x = lit ''user-b''"

text \<open>The three branches on \<^verbatim>\<open>prop.ratings\<close>, and whether they set \<^verbatim>\<open>changed\<close>.\<close>

fun migrate_ratings :: "jsstring \<Rightarrow> ratings \<Rightarrow> ratings" where
  "migrate_ratings created (LegacyRatings a b) =
     RatingList (partner_entry (lit ''u1'') created a @ partner_entry (lit ''u2'') created b)"
| "migrate_ratings created NoRatings = RatingList []"
| "migrate_ratings created (RatingList rs) = RatingList (map (\<lambda>r. r\<lparr>userId := rename_id (userId r)\<rparr>) rs)"

fun ratings_changed :: "ratings \<Rightarrow> bool" where
  "ratings_changed (LegacyRatings a b) \<longleftrightarrow> True"
| "ratings_changed NoRatings \<longleftrightarrow> True"
| "ratings_changed (RatingList rs) \<longleftrightarrow> list_ex (\<lambda>r. renames (userId r)) rs"

definition migrate_prop :: "PropertyWithId \<Rightarrow> PropertyWithId" where
  "migrate_prop prop = prop\<lparr>ratings := migrate_ratings (createdAt prop) (ratings prop)\<rparr>"

text \<open>\<^verbatim>\<open>if (db.properties) for (const prop of db.properties) ...\<close>\<close>

fun migrate_properties :: "PropertyWithId list option \<Rightarrow> PropertyWithId list option" where
  "migrate_properties None = None"
| "migrate_properties (Some ps) = Some (map migrate_prop ps)"

fun properties_changed :: "PropertyWithId list option \<Rightarrow> bool" where
  "properties_changed None \<longleftrightarrow> False"
| "properties_changed (Some ps) \<longleftrightarrow> list_ex (\<lambda>p. ratings_changed (ratings p)) ps"

text \<open>\<^verbatim>\<open>if (db.settings?.users) for (const u of db.settings.users) ...\<close>\<close>

fun fix_user_ids :: "UserConfig list option \<Rightarrow> UserConfig list option" where
  "fix_user_ids None = None"
| "fix_user_ids (Some us) = Some (map (\<lambda>u. u\<lparr>user_id := rename_id (user_id u)\<rparr>) us)"

fun user_ids_changed :: "UserConfig list option \<Rightarrow> bool" where
  "user_ids_changed None \<longleftrightarrow> False"
| "user_ids_changed (Some us) \<longleftrightarrow> list_ex (\<lambda>u. renames (user_id u)) us"

text \<open>
  \<^verbatim>\<open>migrateDb\<close> on the parsed file: the migrated collection, and the final value of
  \<^verbatim>\<open>changed\<close>, on which alone \<^verbatim>\<open>saveDb\<close> is called.
\<close>

definition migrated_settings :: "Db \<Rightarrow> Settings" where
  "migrated_settings db =
     (fst (migrate_settings (settings db)))\<lparr>users := fix_user_ids (users (fst (migrate_settings (settings db))))\<rparr>"

definition migrateDb :: "Db \<Rightarrow> Db \<times> bool" where
  "migrateDb db =
     (\<lparr>properties = migrate_properties (properties db), settings = Some (migrated_settings db)\<rparr>,
      snd (migrate_settings (settings db)) \<or> properties_changed (properties db)
      \<or> user_ids_changed (users (fst (migrate_settings (settings db)))))"

section \<open>storage.ts: the operations on the collection\<close>

text \<open>
  Every operation starts from the collection \<^verbatim>\<open>getDb\<close> has loaded, and either
  returns early or mutates it, calls \<^verbatim>\<open>saveDb\<close> and returns. An outcome holds the
  value the promise resolves to (\<^verbatim>\<open>null\<close>, a record, or nothing for a
  \<^verbatim>\<open>Promise<void>\<close>), the collection held by the file afterwards, and whether
  \<^verbatim>\<open>saveDb\<close> was called. Reading a method of an absent \<^verbatim>\<open>db.properties\<close>, or
  of a \<^verbatim>\<open>ratings\<close> value that is no list, raises a \<^verbatim>\<open>TypeError\<close>.
\<close>

datatype error = TypeError

datatype returned_value = Null | Record PropertyWithId | Void

record outcome =
  returned :: returned_value
  stored :: Db
  written :: bool

text \<open>\<^verbatim>\<open>xs.findIndex(P)\<close>; \<open>None\<close> stands for \<^verbatim>\<open>-1\<close>.\<close>

fun findIndex :: "('a \<Rightarrow> bool) \<Rightarrow> 'a list \<Rightarrow> nat option" where
  "findIndex P [] = None"
| "findIndex P (x # xs) = (if P x then Some 0 else map_option Suc (findIndex P xs))"

text \<open>\<^verbatim>\<open>return null\<close> before anything is written.\<close>

definition not_found :: "Db \<Rightarrow> error + outcome" where
  "not_found db = Inr \<lparr>returned = Null, stored = db, written = False\<rparr>"

text \<open>\<^verbatim>\<open>db.properties[index] = p; await saveDb(db); return db.properties[index]\<close>\<close>

definition commit :: "Db \<Rightarrow> PropertyWithId list \<Rightarrow> nat \<Rightarrow> PropertyWithId \<Rightarrow> error + outcome" where
  "commit db ps i p = Inr \<lparr>returned = Record p, stored = db\<lparr>properties := Some (ps[i := p])\<rparr>, written = True\<rparr>"

subsection \<open>addProperty\<close>

text \<open>
  \<^verbatim>\<open>{...property, id: crypto.randomUUID(), createdAt: new Date().toISOString(), status: 'considering', ratings: []}\<close>;
  the fresh identifier and the time are parameters.
\<close>

definition newProperty :: "PropertyData \<Rightarrow> jsstring \<Rightarrow> jsstring \<Rightarrow> PropertyWithId" where
  "newProperty property uuid now =
     \<lparr>title = title property, price = price property, monthlyPayment = monthlyPayment property,
      url = url property, images = images property, station = station property,
      stationMinute = stationMinute property, yearBuilt = yearBuilt property, area = area property,
      isFreehold = isFreehold property, units = units property, fees = fees property,
      parkingStatus = parkingStatus property, renovated = renovated property,
      id' = uuid, createdAt = now, status = Considering, ratings = RatingList [],
      manuallyEditedFields = Missing\<rparr>"

fun add_or_existing ::
  "PropertyData \<Rightarrow> jsstring \<Rightarrow> jsstring \<Rightarrow> Db \<Rightarrow> PropertyWithId list \<Rightarrow> PropertyWithId option \<Rightarrow> error + outcome" where
  "add_or_existing property uuid now db ps (Some existing) =
     Inr \<lparr>returned = Record existing, stored = db, written = False\<rparr>"
| "add_or_existing property uuid now db ps None =
     Inr \<lparr>returned = Record (newProperty property uuid now),
          stored = db\<lparr>properties := Some (newProperty property uuid now # ps)\<rparr>, written = True\<rparr>"

fun addProperty_in ::
  "PropertyData \<Rightarrow> jsstring \<Rightarrow> jsstring \<Rightarrow> Db \<Rightarrow> PropertyWithId list option \<Rightarrow> error + outcome" where
  "addProperty_in property uuid now db None = Inl TypeError"
| "addProperty_in property uuid now db (Some ps) =
     add_or_existing property uuid now db ps (find (\<lambda>p. url p = url property) ps)"

definition addProperty :: "PropertyData \<Rightarrow> jsstring \<Rightarrow> jsstring \<Rightarrow> Db \<Rightarrow> error + outcome" where
  "addProperty property uuid now db = addProperty_in property uuid now db (properties db)"

subsection \<open>updateRating, updatePropertyStatus, deleteProperty\<close>












subsection \<open>refreshProperty\<close>

text \<open>\<^verbatim>\<open>xs || []\<close> and \<^verbatim>\<open>obj || {}\<close> (also \<^verbatim>\<open>...obj\<close>, which spreads nothing for \<^verbatim>\<open>undefined\<close>).\<close>

fun array_or_empty :: "'a list optional \<Rightarrow> 'a list" where
  "array_or_empty (Present xs) = xs"
| "array_or_empty other = []"

definition no_fees :: Fees where
  "no_fees = \<lparr>management = Missing, repair = Missing, parking = Missing\<rparr>"

fun fees_or_empty :: "Fees optional \<Rightarrow> Fees" where
  "fees_or_empty (Present f) = f"
| "fees_or_empty other = no_fees"

text \<open>\<^verbatim>\<open>{...a, ...b}\<close> on fee bundles, key by key.\<close>

definition spread_fees :: "Fees \<Rightarrow> Fees \<Rightarrow> Fees" where
  "spread_fees a b =
     \<lparr>management = over (management a) (management b), repair = over (repair a) (repair b),
      parking = over (parking a) (parking b)\<rparr>"

text \<open>\<^verbatim>\<open>if (editedFields.includes(field)) delete updateData[field]\<close> on one optional key.\<close>

definition unless_edited :: "jsstring list \<Rightarrow> jsstring \<Rightarrow> 'a optional \<Rightarrow> 'a optional" where
  "unless_edited editedFields field v = (if field \<in> set editedFields then Missing else v)"

text \<open>
  \<^verbatim>\<open>if (updateData.fees) { if (editedFields.includes('fees.management')) delete updateData.fees.management; ... }\<close>.
  (The bundle is shared with the argument \<^verbatim>\<open>data\<close>, whose keys are deleted as well;
  \<^verbatim>\<open>data\<close> is not read again.)
\<close>

fun unedited_fees :: "jsstring list \<Rightarrow> Fees optional \<Rightarrow> Fees optional" where
  "unedited_fees editedFields (Present f) =
     Present \<lparr>management = unless_edited editedFields (lit ''fees.management'') (management f),
              repair = unless_edited editedFields (lit ''fees.repair'') (repair f),
              parking = unless_edited editedFields (lit ''fees.parking'') (parking f)\<rparr>"
| "unedited_fees editedFields other = other"

text \<open>
  The merge \<^verbatim>\<open>{...current, ...updateData, fees: {...current.fees, ...(updateData.fees || {})}}\<close>,
  where \<^verbatim>\<open>updateData\<close> is \<^verbatim>\<open>{...data}\<close> less the keys of \<^verbatim>\<open>topLevelFields\<close>
  found in \<^verbatim>\<open>current.manuallyEditedFields || []\<close>. The keys \<^verbatim>\<open>title\<close>,
  \<^verbatim>\<open>price\<close>, \<^verbatim>\<open>url\<close> and \<^verbatim>\<open>images\<close> are required in \<^verbatim>\<open>PropertyData\<close>;
  \<^verbatim>\<open>price\<close> is the only one of them that can be deleted. \<^verbatim>\<open>PropertyData\<close> has none
  of the other keys of \<^verbatim>\<open>PropertyWithId\<close>.
\<close>

definition refresh_merge :: "PropertyWithId \<Rightarrow> PropertyData \<Rightarrow> PropertyWithId" where
  "refresh_merge current data =
     current\<lparr>
       title := title data,
       price := (if lit ''price'' \<in> set (array_or_empty (manuallyEditedFields current))
                 then price current else price data),
       monthlyPayment := over (monthlyPayment current) (monthlyPayment data),
       url := url data,
       images := images data,
       station := over (station current)
         (unless_edited (array_or_empty (manuallyEditedFields current)) (lit ''station'') (station data)),
       stationMinute := over (stationMinute current)
         (unless_edited (array_or_empty (manuallyEditedFields current)) (lit ''stationMinute'') (stationMinute data)),
       yearBuilt := over (yearBuilt current)
         (unless_edited (array_or_empty (manuallyEditedFields current)) (lit ''yearBuilt'') (yearBuilt data)),
       area := over (area current)
         (unless_edited (array_or_empty (manuallyEditedFields current)) (lit ''area'') (area data)),
       isFreehold := over (isFreehold current) (isFreehold data),
       units := over (units current)
         (unless_edited (array_or_empty (manuallyEditedFields current)) (lit ''units'') (units data)),
       fees := Present (spread_fees (fees_or_empty (fees current))
         (fees_or_empty (unedited_fees (array_or_empty (manuallyEditedFields current)) (fees data)))),
       parkingStatus := over (parkingStatus current)
         (unless_edited (array_or_empty (manuallyEditedFields current)) (lit ''parkingStatus'') (parkingStatus data)),
       renovated := over (renovated current) (renovated data)\<rparr>"

fun refreshProperty_at :: "PropertyData \<Rightarrow> Db \<Rightarrow> PropertyWithId list \<Rightarrow> nat option \<Rightarrow> error + outcome" where
  "refreshProperty_at data db ps None = not_found db"
| "refreshProperty_at data db ps (Some i) = commit db ps i (refresh_merge (ps ! i) data)"

fun refreshProperty_in :: "jsstring \<Rightarrow> PropertyData \<Rightarrow> Db \<Rightarrow> PropertyWithId list option \<Rightarrow> error + outcome" where
  "refreshProperty_in pid data db None = Inl TypeError"
| "refreshProperty_in pid data db (Some ps) =
     refreshProperty_at data db ps (findIndex (\<lambda>p. id' p = pid) ps)"

definition refreshProperty :: "jsstring \<Rightarrow> PropertyData \<Rightarrow> Db \<Rightarrow> error + outcome" where
  "refreshProperty pid data db = refreshProperty_in pid data db (properties db)"

subsection \<open>updateProperty\<close>

text \<open>
  The argument \<^verbatim>\<open>updates: Partial<PropertyWithId>\<close> is an object holding any of the
  keys of \<^verbatim>\<open>PropertyWithId\<close>, in the order \<^verbatim>\<open>Object.keys\<close> lists them: a list of
  entries, one constructor per key. A key that is optional in \<^verbatim>\<open>PropertyWithId\<close> may
  hold \<^verbatim>\<open>undefined\<close> (\<open>None\<close>); a key that is required there holds a value. Should a
  list name a key twice, the later entry wins, as in an object literal.
\<close>

datatype update =
    U_title jsstring
  | U_price jsstring
  | U_monthlyPayment "jsstring option"
  | U_url jsstring
  | U_images "jsstring list"
  | U_station "jsstring option"
  | U_stationMinute "number option"
  | U_yearBuilt "number option"
  | U_area "number option"
  | U_isFreehold "bool option"
  | U_units "number option"
  | U_fees "Fees option"
  | U_parkingStatus "jsstring option"
  | U_renovated "bool option"
  | U_id jsstring
  | U_createdAt jsstring
  | U_status PropertyStatus
  | U_ratings "UserRating list"
  | U_manuallyEditedFields "jsstring list option"

fun key_of :: "update \<Rightarrow> jsstring" where
  "key_of (U_title v) = lit ''title''"
| "key_of (U_price v) = lit ''price''"
| "key_of (U_monthlyPayment v) = lit ''monthlyPayment''"
| "key_of (U_url v) = lit ''url''"
| "key_of (U_images v) = lit ''images''"
| "key_of (U_station v) = lit ''station''"
| "key_of (U_stationMinute v) = lit ''stationMinute''"
| "key_of (U_yearBuilt v) = lit ''yearBuilt''"
| "key_of (U_area v) = lit ''area''"
| "key_of (U_isFreehold v) = lit ''isFreehold''"
| "key_of (U_units v) = lit ''units''"
| "key_of (U_fees v) = lit ''fees''"
| "key_of (U_parkingStatus v) = lit ''parkingStatus''"
| "key_of (U_renovated v) = lit ''renovated''"
| "key_of (U_id v) = lit ''id''"
| "key_of (U_createdAt v) = lit ''createdAt''"
| "key_of (U_status v) = lit ''status''"
| "key_of (U_ratings v) = lit ''ratings''"
| "key_of (U_manuallyEditedFields v) = lit ''manuallyEditedFields''"

fun given :: "'a option \<Rightarrow> 'a optional" where
  "given None = Undefined"
| "given (Some v) = Present v"

text \<open>One key of the spread \<^verbatim>\<open>...updates\<close> over a record.\<close>

fun apply_update :: "PropertyWithId \<Rightarrow> update \<Rightarrow> PropertyWithId" where
  "apply_update p (U_title v) = p\<lparr>title := v\<rparr>"
| "apply_update p (U_price v) = p\<lparr>price := v\<rparr>"
| "apply_update p (U_monthlyPayment v) = p\<lparr>monthlyPayment := given v\<rparr>"
| "apply_update p (U_url v) = p\<lparr>url := v\<rparr>"
| "apply_update p (U_images v) = p\<lparr>images := v\<rparr>"
| "apply_update p (U_station v) = p\<lparr>station := given v\<rparr>"
| "apply_update p (U_stationMinute v) = p\<lparr>stationMinute := given v\<rparr>"
| "apply_update p (U_yearBuilt v) = p\<lparr>yearBuilt := given v\<rparr>"
| "apply_update p (U_area v) = p\<lparr>area := given v\<rparr>"
| "apply_update p (U_isFreehold v) = p\<lparr>isFreehold := given v\<rparr>"
| "apply_update p (U_units v) = p\<lparr>units := given v\<rparr>"
| "apply_update p (U_fees v) = p\<lparr>fees := given v\<rparr>"
| "apply_update p (U_parkingStatus v) = p\<lparr>parkingStatus := given v\<rparr>"
| "apply_update p (U_renovated v) = p\<lparr>renovated := given v\<rparr>"
| "apply_update p (U_id v) = p\<lparr>id' := v\<rparr>"
| "apply_update p (U_createdAt v) = p\<lparr>createdAt := v\<rparr>"
| "apply_update p (U_status v) = p\<lparr>status := v\<rparr>"
| "apply_update p (U_ratings v) = p\<lparr>ratings := RatingList v\<rparr>"
| "apply_update p (U_manuallyEditedFields v) = p\<lparr>manuallyEditedFields := given v\<rparr>"

text \<open>The property \<^verbatim>\<open>updates.fees\<close>.\<close>

fun fees_key :: "Fees optional \<Rightarrow> update \<Rightarrow> Fees optional" where
  "fees_key acc (U_fees v) = given v"
| "fees_key acc u = acc"

definition updates_fees :: "update list \<Rightarrow> Fees optional" where
  "updates_fees updates = foldl fees_key Missing updates"

text \<open>
  The \<^verbatim>\<open>Set\<close> of edited field names keeps insertion order and ignores what it
  already holds: a duplicate-free list. \<^verbatim>\<open>new Set(xs)\<close> adds the elements in turn.
\<close>

definition set_add :: "jsstring \<Rightarrow> jsstring list \<Rightarrow> jsstring list" where
  "set_add x s = (if x \<in> set s then s else s @ [x])"

definition new_Set :: "jsstring list \<Rightarrow> jsstring list" where
  "new_Set xs = foldl (\<lambda>s x. set_add x s) [] xs"

text \<open>\<^verbatim>\<open>if ('k' in updates.fees) editedFields.add('fees.k')\<close>, for the three keys in turn.\<close>

definition add_if_in :: "'a optional \<Rightarrow> jsstring \<Rightarrow> jsstring list \<Rightarrow> jsstring list" where
  "add_if_in v field s = (if v \<noteq> Missing then set_add field s else s)"

definition add_fee_keys :: "Fees \<Rightarrow> jsstring list \<Rightarrow> jsstring list" where
  "add_fee_keys f s =
     add_if_in (parking f) (lit ''fees.parking'')
       (add_if_in (repair f) (lit ''fees.repair'')
          (add_if_in (management f) (lit ''fees.management'') s))"

text \<open>
  The callback of \<^verbatim>\<open>Object.keys(updates).forEach\<close> on one key; the first argument is
  \<^verbatim>\<open>updates.fees\<close>.
\<close>

fun track :: "Fees optional \<Rightarrow> jsstring list \<Rightarrow> update \<Rightarrow> jsstring list" where
  "track (Present f) s (U_fees v) = add_fee_keys f s"
| "track uf s (U_fees v) = set_add (lit ''fees'') s"
| "track uf s (U_manuallyEditedFields v) = s"
| "track uf s (U_ratings v) = s"
| "track uf s (U_status v) = s"
| "track uf s u = set_add (key_of u) s"

text \<open>
  A key written with the value read from another key: reading a missing key gives
  \<^verbatim>\<open>undefined\<close>, and the key written is then there.
\<close>

fun read_key :: "'a optional \<Rightarrow> 'a optional" where
  "read_key Missing = Undefined"
| "read_key v = v"

text \<open>\<^verbatim>\<open>fees: updates.fees ? { ...current.fees, ...updates.fees } : current.fees\<close>\<close>

fun merged_fees :: "Fees optional \<Rightarrow> Fees optional \<Rightarrow> Fees optional" where
  "merged_fees cur (Present f) = Present (spread_fees (fees_or_empty cur) f)"
| "merged_fees cur other = read_key cur"

definition update_merge :: "PropertyWithId \<Rightarrow> update list \<Rightarrow> PropertyWithId" where
  "update_merge current updates =
     (foldl apply_update current updates)\<lparr>
        fees := merged_fees (fees current) (updates_fees updates),
        manuallyEditedFields :=
          Present (foldl (track (updates_fees updates))
                     (new_Set (array_or_empty (manuallyEditedFields current))) updates)\<rparr>"

fun updateProperty_at :: "update list \<Rightarrow> Db \<Rightarrow> PropertyWithId list \<Rightarrow> nat option \<Rightarrow> error + outcome" where
  "updateProperty_at updates db ps None = not_found db"
| "updateProperty_at updates db ps (Some i) = commit db ps i (update_merge (ps ! i) updates)"

fun updateProperty_in :: "jsstring \<Rightarrow> update list \<Rightarrow> Db \<Rightarrow> PropertyWithId list option \<Rightarrow> error + outcome" where
  "updateProperty_in pid updates db None = Inl TypeError"
| "updateProperty_in pid updates db (Some ps) =
     updateProperty_at updates db ps (findIndex (\<lambda>p. id' p = pid) ps)"

definition updateProperty :: "jsstring \<Rightarrow> update list \<Rightarrow> Db \<Rightarrow> error + outcome" where
  "updateProperty pid updates db = updateProperty_in pid updates db (properties db)"

subsection \<open>Example collections\<close>

text \<open>
  A stored property with identifier \<^verbatim>\<open>p1\<close>, whose price was edited by hand, and a
  collection that holds it.
\<close>

definition example_fees :: Fees where
  "example_fees = \<lparr>management = Present (Num 12000), repair = Present (Num 8000), parking = Missing\<rparr>"

definition example_property :: PropertyWithId where
  "example_property =
     \<lparr>title = lit ''Sample'', price = lit ''3980'', monthlyPayment = Missing,
      url = lit ''https://example.com/1'', images = [], station = Missing,
      stationMinute = Present (Num 5), yearBuilt = Present (Num 2003), area = Present (Num 60),
      isFreehold = Present True, units = Missing, fees = Present example_fees,
      parkingStatus = Missing, renovated = Missing,
      id' = lit ''p1'', createdAt = lit ''2024-01-01T00:00:00.000Z'', status = Considering,
      ratings = RatingList [], manuallyEditedFields = Present [lit ''price'']\<rparr>"

definition example_db :: Db where
  "example_db = defaultDb\<lparr>properties := Some [example_property]\<rparr>"

text \<open>A freshly extracted record for the same address: other price, other area, only a management fee.\<close>

definition example_data :: PropertyData where
  "example_data =
     \<lparr>title = lit ''Sample'', price = lit ''3780'', monthlyPayment = Missing,
      url = lit ''https://example.com/1'', images = [], station = Missing,
      stationMinute = Missing, yearBuilt = Missing, area = Present (Num 62),
      isFreehold = Present True, units = Missing,
      fees = Present \<lparr>management = Present (Num 13000), repair = Missing, parking = Missing\<rparr>,
      parkingStatus = Missing, renovated = Missing\<rparr>"


text \<open>
  The collection as \<open>defaultDb\<close> has it, but for the identifier of its one user, which is
  the legacy \<^verbatim>\<open>user-a\<close>.
\<close>

definition legacy_user_db :: Db where
  "legacy_user_db =
     \<lparr>properties = Some [],
      settings = Some \<lparr>users = Some [\<lparr>user_id = lit ''user-a'', name = default_name1, icon = default_icon\<rparr>],
                       loan = Some default_loan, partnerA = None, partnerB = None\<rparr>\<rparr>"

subsection \<open>The current shape of a collection\<close>

text \<open>
  The current shape as the specification states it: settings with a non-empty user list
  and a loan bundle, and every property's ratings a list without the legacy identifiers
  \<^verbatim>\<open>user-a\<close> and \<^verbatim>\<open>user-b\<close>.
\<close>

definition legacy_id :: "jsstring \<Rightarrow> bool" where
  "legacy_id x \<longleftrightarrow> x = lit ''user-a'' \<or> x = lit ''user-b''"

fun has_users_and_loan :: "Settings option \<Rightarrow> bool" where
  "has_users_and_loan None \<longleftrightarrow> False"
| "has_users_and_loan (Some st) \<longleftrightarrow> \<not> lacks_users (users st) \<and> loan st \<noteq> None"

fun current_ratings :: "ratings \<Rightarrow> bool" where
  "current_ratings (RatingList rs) \<longleftrightarrow> list_all (\<lambda>r. \<not> legacy_id (userId r)) rs"
| "current_ratings other \<longleftrightarrow> False"

fun current_properties :: "PropertyWithId list option \<Rightarrow> bool" where
  "current_properties None \<longleftrightarrow> True"
| "current_properties (Some ps) \<longleftrightarrow> list_all (\<lambda>p. current_ratings (ratings p)) ps"

definition current_shape_as_stated :: "Db \<Rightarrow> bool" where
  "current_shape_as_stated db \<longleftrightarrow> has_users_and_loan (settings db) \<and> current_properties (properties db)"

text \<open>The current shape with what the last step of the migration looks at: no user of the settings has a legacy identifier.\<close>

fun current_users :: "UserConfig list option \<Rightarrow> bool" where
  "current_users None \<longleftrightarrow> True"
| "current_users (Some us) \<longleftrightarrow> list_all (\<lambda>u. \<not> legacy_id (user_id u)) us"

fun current_user_ids :: "Settings option \<Rightarrow> bool" where
  "current_user_ids None \<longleftrightarrow> True"
| "current_user_ids (Some st) \<longleftrightarrow> current_users (users st)"

definition current_shape :: "Db \<Rightarrow> bool" where
  "current_shape db \<longleftrightarrow> current_shape_as_stated db \<and> current_user_ids (settings db)"

section \<open>Facts about the source-language primitives\<close>

lemma lit_eq_iff [simp]: "lit a = lit b \<longleftrightarrow> a = b"
  unfolding lit_def by (simp add: inj_map_eq_map inj_of_char)



subsection \<open>Integers below \<open>2^53\<close> are doubles\<close>

lemma bit_length_le: "n < 2 ^ k \<Longrightarrow> bit_length n \<le> k"
proof (induction k arbitrary: n)
  case 0
  then show ?case by (simp add: bit_length.simps)
next
  case (Suc k)
  show ?case
  proof (cases "n = 0")
    case True
    then show ?thesis by (simp add: bit_length.simps)
  next
    case False
    have "n div 2 < 2 ^ k" using Suc.prems by auto
    then have "bit_length (n div 2) \<le> k" by (rule Suc.IH)
    then show ?thesis using False by (subst bit_length.simps) simp
  qed
qed

lemma round_half_even_int: "round_half_even (of_int m) = m"
  by (simp add: round_half_even_def)

lemma round_double_nat:
  assumes "n < 2 ^ 53"
  shows "round_double (of_nat n) = Num (of_nat n)"
proof (cases "n = 0")
  case True
  then show ?thesis by (simp add: round_double_def)
next
  case False
  define L where "L = bit_length n"
  have L: "L \<le> 53" unfolding L_def using assms by (rule bit_length_le)
  have q1: "(1::rat) \<le> of_nat n" using False by simp
  have il: "ilog2 (of_nat n) = int L - 1"
    using q1 by (simp add: ilog2_def L_def)
  have de: "double_exponent (of_nat n) = int L - 53"
    using L by (simp add: double_exponent_def il)
  have sc: "scale2 (of_nat n) (- double_exponent (of_nat n)) = of_int (int n * 2 ^ (53 - L))"
    using L by (simp add: de scale2_def nat_diff_distrib)
  have nd: "nearest_double (of_nat n) = of_nat n"
    unfolding nearest_double_def sc round_half_even_int
    using L by (auto simp add: de scale2_def nat_diff_distrib)
  have "(of_nat n :: rat) < 2 ^ 1024"
  proof -
    have "n < 2 ^ 1024" using assms by (rule less_le_trans) simp
    then show ?thesis by (metis of_nat_less_iff of_nat_numeral of_nat_power)
  qed
  then show ?thesis
    using False q1 by (simp add: round_double_def round_pos_def nd)
qed


lemma round_double_numeral [simp]:
  "numeral k < (9007199254740992::nat) \<Longrightarrow> round_double (numeral k) = Num (numeral k)"
  using round_double_nat[of "numeral k"] by simp

lemma round_double_0 [simp]: "round_double 0 = Num 0"
  by (simp add: round_double_def)

lemma round_double_1 [simp]: "round_double 1 = Num 1"
  using round_double_nat[of 1] by simp


subsection \<open>Rounding by certificate\<close>

lemma floor_rat_numeral [simp]:
  "\<lfloor>(numeral a :: rat) / numeral b\<rfloor> = numeral a div numeral b"
  using floor_divide_of_int_eq[of "numeral a" "numeral b", where ?'a = rat] by simp

lemma bit_length_eq:
  assumes "2 ^ k \<le> n" "n < 2 ^ Suc k"
  shows "bit_length n = Suc k"
  using assms
proof (induction k arbitrary: n)
  case 0
  then have "n = 1" by simp
  then show ?case by (simp add: bit_length.simps)
next
  case (Suc k)
  have "2 ^ k \<le> n div 2" "n div 2 < 2 ^ Suc k" using Suc.prems by auto
  then have "bit_length (n div 2) = Suc k" by (rule Suc.IH)
  moreover have "0 < (2::nat) ^ Suc k" by simp
  then have "n \<noteq> 0" using Suc.prems(1) by linarith
  ultimately show ?case by (subst bit_length.simps) simp
qed

lemma round_double_certificate:
  assumes "1 \<le> q" and "2 ^ k \<le> nat \<lfloor>q\<rfloor>" and "nat \<lfloor>q\<rfloor> < 2 ^ Suc k" and "k \<le> 52"
    and "round_half_even (q * 2 ^ (52 - k)) = m" and "v = of_int m / 2 ^ (52 - k)" and "v < 2 ^ 1024"
  shows "round_double q = Num v"
proof -
  have il: "ilog2 q = int k"
    using assms(1) bit_length_eq[OF assms(2,3)] by (simp add: ilog2_def)
  have de: "double_exponent q = int k - 52"
    by (simp add: double_exponent_def il)
  have "nearest_double q = v"
    using assms(4,5,6) by (simp add: nearest_double_def de scale2_def nat_diff_distrib)
  then show ?thesis
    using assms(1,7) by (simp add: round_double_def round_pos_def)
qed




section \<open>parseJapaneseNumber\<close>








text \<open>
  The model follows the rounding of the source: 1.13 is not a double, and the product of
  the double nearest to it and 10000, rounded, is 11299.999999999998 (the double
  \<open>6212240696934399 / 2^39\<close>), not 11300.
\<close>

lemma parseFloat_113: "parseFloat [0x31, 0x2E, 0x31, 0x33] = Num (1272266894732165 / 1125899906842624)"
proof -
  have "round_double (113 / 100) = Num (1272266894732165 / 1125899906842624)"
    by (rule round_double_certificate[where k = 0 and m = 5089067578928660])
       (simp_all add: round_half_even_def)
  moreover have "parseFloat [0x31, 0x2E, 0x31, 0x33] = round_double (113 / 100)"
    by (simp add: parseFloat_def is_digit_def digits_val_def del: round_double_numeral)
  ultimately show ?thesis by (simp only:)
qed

lemma parseJapaneseNumber_rounds:
  "parseJapaneseNumber [0x31, 0x2E, 0x31, 0x33, 0x4E07, 0x5186] = Num (6212240696934399 / 549755813888)"
proof -
  have times: "round_double (1272266894732165 / 1125899906842624 * 10000)
      = Num (6212240696934399 / 549755813888)"
    by (rule round_double_certificate[where k = 13 and m = 6212240696934399])
       (simp_all add: round_half_even_def)
  have plus: "round_double (6212240696934399 / 549755813888 + 0) = Num (6212240696934399 / 549755813888)"
    by (rule round_double_certificate[where k = 13 and m = 6212240696934399])
       (simp_all add: round_half_even_def)
  have "parseJapaneseNumber [0x31, 0x2E, 0x31, 0x33, 0x4E07, 0x5186]
      = num_add (num_mul (parseFloat [0x31, 0x2E, 0x31, 0x33]) (Num 10000)) (Num 0)"
    by (simp add: parseJapaneseNumber_def strip_commas_def is_numch_def is_digit_def is_space_def)
  also have "\<dots> = num_add (round_double (1272266894732165 / 1125899906842624 * 10000)) (Num 0)"
    by (simp only: parseFloat_113 num_mul.simps)
  also have "\<dots> = round_double (6212240696934399 / 549755813888 + 0)"
    by (simp only: times num_add.simps)
  finally show ?thesis by (simp only: plus)
qed




section \<open>The construction-year heuristic\<close>

subsection \<open>Searches from left to right\<close>



subsection \<open>Math.min on a list of numbers\<close>




subsection \<open>The year tokens\<close>
















subsection \<open>The labelled year\<close>










subsection \<open>The relative expression\<close>










section \<open>The image pass\<close>

lemma accepted_src_new: "accepted_src acc s \<Longrightarrow> the s \<notin> set acc"
  by (cases s) auto

lemma distinct_push_imgs: "distinct acc \<Longrightarrow> distinct (push_imgs acc imgs)"
  by (induction imgs arbitrary: acc) (auto dest: accepted_src_new)

lemma distinct_gallery_loop: "distinct acc \<Longrightarrow> distinct (gallery_loop doc acc sels)"
  by (induction sels arbitrary: acc) (auto simp: distinct_push_imgs)

lemma distinct_extract_images: "distinct (extract_images doc)"
  unfolding extract_images_def
  by (rule distinct_gallery_loop) (cases "og_image doc"; simp)

lemma lit_Nil [simp]: "lit [] = []"
  by (simp add: lit_def)

lemma lit_empty_iff [simp]: "lit a = [] \<longleftrightarrow> a = []"
  by (simp add: lit_def)

lemma length_lit [simp]: "length (lit a) = length a"
  by (simp add: lit_def)

lemma startsWith_lit [simp]: "startsWith (lit a) (lit b) \<longleftrightarrow> take (length b) a = b"
  unfolding startsWith_def lit_def
  by (simp add: take_map inj_map_eq_map inj_of_char)

lemma str_includes_lit_Nil [simp]: "str_includes (lit []) (lit p) \<longleftrightarrow> p = []"
  by simp

lemma str_includes_lit_Cons [simp]:
  "str_includes (lit (c # cs)) (lit p) \<longleftrightarrow> startsWith (lit (c # cs)) (lit p) \<or> str_includes (lit cs) (lit p)"
proof -
  have "lit (c # cs) = of_char c # lit cs" by (simp add: lit_def)
  then show ?thesis by (simp add: startsWith_def)
qed

text \<open>
  Claim C10 at two pages. A page whose first gallery selector matches thirteen elements with
  thirteen different absolute addresses yields thirteen images: the limit of 12 is tested
  only between selectors. A page whose \<^verbatim>\<open>og:image\<close> address is relative yields
  that address, which does not begin with \<^verbatim>\<open>http\<close>: only the gallery addresses are
  tested.
\<close>

theorem extract_images_exceeds_bounds:
  "length (extract_images thirteen_img_document) = 13
   \<and> extract_images relative_og_document = [lit ''/img/top.jpg'']
   \<and> \<not> startsWith (lit ''/img/top.jpg'') (lit ''http'')"
  by (simp add: extract_images_def gallerySelectors_def thirteen_img_document_def thirteen_srcs_def
      relative_og_document_def img_with_src_def img_src_def)

section \<open>Facts about the collection operations\<close>


lemma findIndex_Some: "findIndex P xs = Some i \<Longrightarrow> i < length xs \<and> P (xs ! i)"
proof (induction xs arbitrary: i)
  case Nil
  then show ?case by simp
next
  case (Cons x xs)
  then show ?case by (auto split: if_splits)
qed

lemma find_url_Some:
  assumes "e \<in> set ps" "url e = u"
  shows "\<exists>existing. find (\<lambda>p. url p = u) ps = Some existing \<and> existing \<in> set ps \<and> url existing = u"
proof (cases "find (\<lambda>p. url p = u) ps")
  case None
  then show ?thesis using assms by (auto simp: find_None_iff)
next
  case (Some a)
  then show ?thesis by (auto simp: find_Some_iff)
qed

lemma same_properties: "properties db = Some ps \<Longrightarrow> db\<lparr>properties := Some ps\<rparr> = db"
  by simp


text \<open>
  Claim C7. For every collection and every stored property whose ratings are the legacy
  bundle with \<^verbatim>\<open>partnerA = {score: "good", comment: "c"}\<close> and no
  \<^verbatim>\<open>partnerB\<close>, \<open>migrateDb\<close> leaves in its place the same property with a ratings list
  of exactly one entry: user \<^verbatim>\<open>u1\<close>, score good, comment \<^verbatim>\<open>c\<close>, and the
  property's \<^verbatim>\<open>createdAt\<close> as \<^verbatim>\<open>updatedAt\<close>; and the collection is rewritten.
\<close>

theorem migrateDb_legacy_partnerA:
  "properties (fst (migrateDb (db\<lparr>properties := Some (before @
       [p\<lparr>ratings := LegacyRatings (Some \<lparr>rd_score = Some Good, rd_comment = lit ''c''\<rparr>) None\<rparr>] @ after)\<rparr>)))
   = Some (map migrate_prop before @
       [p\<lparr>ratings := RatingList [\<lparr>userId = lit ''u1'', score = Some Good, comment = lit ''c'',
                                   updatedAt = createdAt p\<rparr>]\<rparr>] @ map migrate_prop after)
   \<and> snd (migrateDb (db\<lparr>properties := Some (before @
       [p\<lparr>ratings := LegacyRatings (Some \<lparr>rd_score = Some Good, rd_comment = lit ''c''\<rparr>) None\<rparr>] @ after)\<rparr>))"
  by (simp add: migrateDb_def migrate_prop_def)

text \<open>
  Claim C8. For every collection and every \<open>PropertyData\<close> whose \<^verbatim>\<open>url\<close> is that of a
  stored property, \<open>addProperty\<close> returns a stored record with that \<^verbatim>\<open>url\<close> (the
  first one), and the collection is left as it was, without a write.
\<close>

theorem addProperty_duplicate_url:
  assumes "properties db = Some ps" and "e \<in> set ps" and "url e = url property"
  shows "\<exists>existing. addProperty property uuid now db
             = Inr \<lparr>returned = Record existing, stored = db, written = False\<rparr>
           \<and> find (\<lambda>p. url p = url property) ps = Some existing
           \<and> existing \<in> set ps \<and> url existing = url property"
proof -
  from find_url_Some[OF assms(2,3)] obtain existing where
    f: "find (\<lambda>p. url p = url property) ps = Some existing" and
    m: "existing \<in> set ps" "url existing = url property"
    by blast
  have "addProperty property uuid now db = Inr \<lparr>returned = Record existing, stored = db, written = False\<rparr>"
    using assms(1) f by (simp add: addProperty_def)
  then show ?thesis using f m by blast
qed

theorem addProperty_duplicate_url_witness:
  "addProperty example_data (lit ''fresh'') (lit ''2025-01-01'') example_db
     = Inr \<lparr>returned = Record example_property, stored = example_db, written = False\<rparr>"
proof -
  have "properties example_db = Some [example_property]"
    by (simp add: example_db_def)
  moreover have "example_property \<in> set [example_property]" by simp
  moreover have "url example_property = url example_data"
    by (simp add: example_property_def example_data_def)
  ultimately obtain existing where
    "addProperty example_data (lit ''fresh'') (lit ''2025-01-01'') example_db
       = Inr \<lparr>returned = Record existing, stored = example_db, written = False\<rparr>"
    "existing \<in> set [example_property]"
    using addProperty_duplicate_url[of example_db "[example_property]" example_property example_data
        "lit ''fresh''" "lit ''2025-01-01''"]
    by blast
  then show ?thesis by simp
qed




section \<open>The two merges\<close>

lemma over_given: "v \<noteq> Missing \<Longrightarrow> over cur v = v"
  by (cases v) simp_all

lemma unless_edited_in: "field \<in> set ef \<Longrightarrow> unless_edited ef field v = Missing"
  by (simp add: unless_edited_def)

lemma unless_edited_out: "field \<notin> set ef \<Longrightarrow> unless_edited ef field v = v"
  by (simp add: unless_edited_def)

lemma refreshProperty_found:
  assumes "properties db = Some ps" "findIndex (\<lambda>p. id' p = pid) ps = Some i"
  shows "refreshProperty pid data db =
     Inr \<lparr>returned = Record (refresh_merge (ps ! i) data),
          stored = db\<lparr>properties := Some (ps[i := refresh_merge (ps ! i) data])\<rparr>, written = True\<rparr>"
  using assms by (simp add: refreshProperty_def commit_def)

lemma updateProperty_found:
  assumes "properties db = Some ps" "findIndex (\<lambda>p. id' p = pid) ps = Some i"
  shows "updateProperty pid updates db =
     Inr \<lparr>returned = Record (update_merge (ps ! i) updates),
          stored = db\<lparr>properties := Some (ps[i := update_merge (ps ! i) updates])\<rparr>, written = True\<rparr>"
  using assms by (simp add: updateProperty_def commit_def)

lemma refresh_merge_fees:
  "fees (refresh_merge current data) =
     Present (spread_fees (fees_or_empty (fees current))
       (fees_or_empty (unedited_fees (array_or_empty (manuallyEditedFields current)) (fees data))))"
  by (simp add: refresh_merge_def)

lemma refresh_fee_edited:
  assumes "fees (refresh_merge current data) = Present fr"
  shows "lit ''fees.management'' \<in> set (array_or_empty (manuallyEditedFields current))
            \<Longrightarrow> management fr = management (fees_or_empty (fees current))"
    and "lit ''fees.repair'' \<in> set (array_or_empty (manuallyEditedFields current))
            \<Longrightarrow> repair fr = repair (fees_or_empty (fees current))"
    and "lit ''fees.parking'' \<in> set (array_or_empty (manuallyEditedFields current))
            \<Longrightarrow> parking fr = parking (fees_or_empty (fees current))"
  using assms unfolding refresh_merge_fees
  by (cases "fees data"; auto simp: spread_fees_def unless_edited_def no_fees_def)+

lemma refresh_fee_unedited:
  assumes "fees (refresh_merge current data) = Present fr" "fees data = Present fd"
  shows "lit ''fees.management'' \<notin> set (array_or_empty (manuallyEditedFields current))
            \<Longrightarrow> management fd \<noteq> Missing \<Longrightarrow> management fr = management fd"
    and "lit ''fees.repair'' \<notin> set (array_or_empty (manuallyEditedFields current))
            \<Longrightarrow> repair fd \<noteq> Missing \<Longrightarrow> repair fr = repair fd"
    and "lit ''fees.parking'' \<notin> set (array_or_empty (manuallyEditedFields current))
            \<Longrightarrow> parking fd \<noteq> Missing \<Longrightarrow> parking fr = parking fd"
  using assms unfolding refresh_merge_fees
  by (auto simp: spread_fees_def unless_edited_def over_given)

lemma refresh_fee_absent:
  assumes "fees (refresh_merge current data) = Present fr" "fees data = Present fd"
  shows "repair fd = Missing \<Longrightarrow> repair fr = repair (fees_or_empty (fees current))"
  using assms unfolding refresh_merge_fees
  by (auto simp: spread_fees_def unless_edited_def)

text \<open>
  Claim C1. For every collection and every stored property found by its identifier,
  \<open>refreshProperty\<close> with freshly extracted data returns and stores a record in which every
  protectable field whose name is in the property's \<^verbatim>\<open>manuallyEditedFields\<close> has
  the stored value, and every protectable field whose name is not there has the freshly
  extracted value when the data carry one. The protectable fields are \<^verbatim>\<open>price\<close>,
  \<^verbatim>\<open>area\<close>, \<^verbatim>\<open>yearBuilt\<close>, \<^verbatim>\<open>units\<close>, \<^verbatim>\<open>station\<close>,
  \<^verbatim>\<open>stationMinute\<close>, \<^verbatim>\<open>parkingStatus\<close> and the three fees, named
  \<^verbatim>\<open>fees.management\<close>, \<^verbatim>\<open>fees.repair\<close> and \<^verbatim>\<open>fees.parking\<close>.
\<close>

theorem refreshProperty_protects_edited_fields:
  assumes "properties db = Some ps" and "findIndex (\<lambda>p. id' p = pid) ps = Some i"
    and "ef = array_or_empty (manuallyEditedFields (ps ! i))"
  shows "\<exists>r fr. refreshProperty pid data db
           = Inr \<lparr>returned = Record r, stored = db\<lparr>properties := Some (ps[i := r])\<rparr>, written = True\<rparr>
     \<and> (lit ''price'' \<in> set ef \<longrightarrow> price r = price (ps ! i))
     \<and> (lit ''price'' \<notin> set ef \<longrightarrow> price r = price data)
     \<and> (lit ''area'' \<in> set ef \<longrightarrow> area r = area (ps ! i))
     \<and> (lit ''area'' \<notin> set ef \<and> area data \<noteq> Missing \<longrightarrow> area r = area data)
     \<and> (lit ''yearBuilt'' \<in> set ef \<longrightarrow> yearBuilt r = yearBuilt (ps ! i))
     \<and> (lit ''yearBuilt'' \<notin> set ef \<and> yearBuilt data \<noteq> Missing \<longrightarrow> yearBuilt r = yearBuilt data)
     \<and> (lit ''units'' \<in> set ef \<longrightarrow> units r = units (ps ! i))
     \<and> (lit ''units'' \<notin> set ef \<and> units data \<noteq> Missing \<longrightarrow> units r = units data)
     \<and> (lit ''station'' \<in> set ef \<longrightarrow> station r = station (ps ! i))
     \<and> (lit ''station'' \<notin> set ef \<and> station data \<noteq> Missing \<longrightarrow> station r = station data)
     \<and> (lit ''stationMinute'' \<in> set ef \<longrightarrow> stationMinute r = stationMinute (ps ! i))
     \<and> (lit ''stationMinute'' \<notin> set ef \<and> stationMinute data \<noteq> Missing \<longrightarrow> stationMinute r = stationMinute data)
     \<and> (lit ''parkingStatus'' \<in> set ef \<longrightarrow> parkingStatus r = parkingStatus (ps ! i))
     \<and> (lit ''parkingStatus'' \<notin> set ef \<and> parkingStatus data \<noteq> Missing \<longrightarrow> parkingStatus r = parkingStatus data)
     \<and> fees r = Present fr
     \<and> (lit ''fees.management'' \<in> set ef \<longrightarrow> management fr = management (fees_or_empty (fees (ps ! i))))
     \<and> (lit ''fees.repair'' \<in> set ef \<longrightarrow> repair fr = repair (fees_or_empty (fees (ps ! i))))
     \<and> (lit ''fees.parking'' \<in> set ef \<longrightarrow> parking fr = parking (fees_or_empty (fees (ps ! i))))
     \<and> (\<forall>fd. fees data = Present fd \<longrightarrow>
           (lit ''fees.management'' \<notin> set ef \<and> management fd \<noteq> Missing \<longrightarrow> management fr = management fd)
         \<and> (lit ''fees.repair'' \<notin> set ef \<and> repair fd \<noteq> Missing \<longrightarrow> repair fr = repair fd)
         \<and> (lit ''fees.parking'' \<notin> set ef \<and> parking fd \<noteq> Missing \<longrightarrow> parking fr = parking fd))"
proof -
  define r where "r = refresh_merge (ps ! i) data"
  obtain fr where fr: "fees r = Present fr"
    unfolding r_def by (simp add: refresh_merge_fees)
  have out: "refreshProperty pid data db
      = Inr \<lparr>returned = Record r, stored = db\<lparr>properties := Some (ps[i := r])\<rparr>, written = True\<rparr>"
    unfolding r_def using assms(1,2) by (rule refreshProperty_found)
  have top: "(lit ''price'' \<in> set ef \<longrightarrow> price r = price (ps ! i))"
    "(lit ''price'' \<notin> set ef \<longrightarrow> price r = price data)"
    "(lit ''area'' \<in> set ef \<longrightarrow> area r = area (ps ! i))"
    "(lit ''area'' \<notin> set ef \<and> area data \<noteq> Missing \<longrightarrow> area r = area data)"
    "(lit ''yearBuilt'' \<in> set ef \<longrightarrow> yearBuilt r = yearBuilt (ps ! i))"
    "(lit ''yearBuilt'' \<notin> set ef \<and> yearBuilt data \<noteq> Missing \<longrightarrow> yearBuilt r = yearBuilt data)"
    "(lit ''units'' \<in> set ef \<longrightarrow> units r = units (ps ! i))"
    "(lit ''units'' \<notin> set ef \<and> units data \<noteq> Missing \<longrightarrow> units r = units data)"
    "(lit ''station'' \<in> set ef \<longrightarrow> station r = station (ps ! i))"
    "(lit ''station'' \<notin> set ef \<and> station data \<noteq> Missing \<longrightarrow> station r = station data)"
    "(lit ''stationMinute'' \<in> set ef \<longrightarrow> stationMinute r = stationMinute (ps ! i))"
    "(lit ''stationMinute'' \<notin> set ef \<and> stationMinute data \<noteq> Missing \<longrightarrow> stationMinute r = stationMinute data)"
    "(lit ''parkingStatus'' \<in> set ef \<longrightarrow> parkingStatus r = parkingStatus (ps ! i))"
    "(lit ''parkingStatus'' \<notin> set ef \<and> parkingStatus data \<noteq> Missing \<longrightarrow> parkingStatus r = parkingStatus data)"
    unfolding r_def assms(3)
    by (simp_all add: refresh_merge_def unless_edited_in unless_edited_out over_given)
  have fee_in: "(lit ''fees.management'' \<in> set ef \<longrightarrow> management fr = management (fees_or_empty (fees (ps ! i))))"
    "(lit ''fees.repair'' \<in> set ef \<longrightarrow> repair fr = repair (fees_or_empty (fees (ps ! i))))"
    "(lit ''fees.parking'' \<in> set ef \<longrightarrow> parking fr = parking (fees_or_empty (fees (ps ! i))))"
    using refresh_fee_edited[OF fr[unfolded r_def]] unfolding assms(3) by blast+
  have fee_out: "\<forall>fd. fees data = Present fd \<longrightarrow>
           (lit ''fees.management'' \<notin> set ef \<and> management fd \<noteq> Missing \<longrightarrow> management fr = management fd)
         \<and> (lit ''fees.repair'' \<notin> set ef \<and> repair fd \<noteq> Missing \<longrightarrow> repair fr = repair fd)
         \<and> (lit ''fees.parking'' \<notin> set ef \<and> parking fd \<noteq> Missing \<longrightarrow> parking fr = parking fd)"
    using refresh_fee_unedited[OF fr[unfolded r_def]] unfolding assms(3) by blast
  show ?thesis
    by (rule exI[of _ r], rule exI[of _ fr], intro conjI; (rule out top fr fee_in fee_out))
qed


lemma example_found: "findIndex (\<lambda>p. id' p = lit ''p1'') [example_property] = Some 0"
  by (simp add: example_property_def)

lemma example_properties: "properties example_db = Some [example_property]"
  by (simp add: example_db_def)

text \<open>
  The theorem at the example collection: the price, edited by hand, stays at 3980 although
  3780 was extracted; the area goes from 60 to the extracted 62; the management fee, not
  edited, goes to the extracted 13000.
\<close>

theorem refreshProperty_protects_edited_fields_witness:
  "refreshProperty (lit ''p1'') example_data example_db
     = Inr \<lparr>returned = Record (refresh_merge example_property example_data),
            stored = example_db\<lparr>properties := Some [refresh_merge example_property example_data]\<rparr>,
            written = True\<rparr>
   \<and> price (refresh_merge example_property example_data) = lit ''3980''
   \<and> area (refresh_merge example_property example_data) = Present (Num 62)
   \<and> fees (refresh_merge example_property example_data)
       = Present \<lparr>management = Present (Num 13000), repair = Present (Num 8000), parking = Missing\<rparr>"
proof -
  have ef: "[lit ''price''] = array_or_empty (manuallyEditedFields ([example_property] ! 0))"
    by (simp add: example_property_def)
  note inst = refreshProperty_protects_edited_fields[OF example_properties example_found ef, of example_data]
  from inst obtain r fr where
    out: "refreshProperty (lit ''p1'') example_data example_db
       = Inr \<lparr>returned = Record r, stored = example_db\<lparr>properties := Some ([example_property][0 := r])\<rparr>,
              written = True\<rparr>"
    and price: "lit ''price'' \<in> set [lit ''price''] \<longrightarrow> price r = price ([example_property] ! 0)"
    and area: "lit ''area'' \<notin> set [lit ''price''] \<and> area example_data \<noteq> Missing \<longrightarrow> area r = area example_data"
    and fees: "fees r = Present fr"
    and mgmt: "\<forall>fd. fees example_data = Present fd \<longrightarrow>
           (lit ''fees.management'' \<notin> set [lit ''price''] \<and> management fd \<noteq> Missing \<longrightarrow> management fr = management fd)
         \<and> (lit ''fees.repair'' \<notin> set [lit ''price''] \<and> repair fd \<noteq> Missing \<longrightarrow> repair fr = repair fd)
         \<and> (lit ''fees.parking'' \<notin> set [lit ''price''] \<and> parking fd \<noteq> Missing \<longrightarrow> parking fr = parking fd)"
    by (elim exE conjE) (rule that)
  have r: "r = refresh_merge example_property example_data"
    using out refreshProperty_found[OF example_properties example_found, of example_data] by simp
  have "price r = lit ''3980''"
    using price by (simp add: example_property_def)
  moreover have "area r = Present (Num 62)"
    using area by (simp add: example_data_def)
  moreover have "fees (refresh_merge example_property example_data)
       = Present \<lparr>management = Present (Num 13000), repair = Present (Num 8000), parking = Missing\<rparr>"
    by (simp add: refresh_merge_fees example_property_def example_data_def example_fees_def
        spread_fees_def unless_edited_def)
  ultimately show ?thesis
    using out unfolding r by simp
qed

lemma apply_update_id: "key_of u \<noteq> lit ''id'' \<Longrightarrow> id' (apply_update p u) = id' p"
  by (cases u) simp_all

lemma apply_update_createdAt: "key_of u \<noteq> lit ''createdAt'' \<Longrightarrow> createdAt (apply_update p u) = createdAt p"
  by (cases u) simp_all

lemma apply_update_ratings: "key_of u \<noteq> lit ''ratings'' \<Longrightarrow> ratings (apply_update p u) = ratings p"
  by (cases u) simp_all

lemma apply_update_status: "key_of u \<noteq> lit ''status'' \<Longrightarrow> status (apply_update p u) = status p"
  by (cases u) simp_all

lemma spread_updates_id:
  "lit ''id'' \<notin> key_of ` set updates \<Longrightarrow> id' (foldl apply_update p updates) = id' p"
  by (induction updates arbitrary: p) (auto simp: apply_update_id)

lemma spread_updates_createdAt:
  "lit ''createdAt'' \<notin> key_of ` set updates \<Longrightarrow> createdAt (foldl apply_update p updates) = createdAt p"
  by (induction updates arbitrary: p) (auto simp: apply_update_createdAt)

lemma spread_updates_ratings:
  "lit ''ratings'' \<notin> key_of ` set updates \<Longrightarrow> ratings (foldl apply_update p updates) = ratings p"
  by (induction updates arbitrary: p) (auto simp: apply_update_ratings)

lemma spread_updates_status:
  "lit ''status'' \<notin> key_of ` set updates \<Longrightarrow> status (foldl apply_update p updates) = status p"
  by (induction updates arbitrary: p) (auto simp: apply_update_status)

text \<open>
  Claim C2, as amended. For every collection, every stored property found by its
  identifier and every incoming payload: \<open>refreshProperty\<close> leaves \<^verbatim>\<open>id\<close>,
  \<^verbatim>\<open>createdAt\<close>, \<^verbatim>\<open>ratings\<close> and \<^verbatim>\<open>status\<close> of the record as they were; and
  \<open>updateProperty\<close> leaves each of these four as it was whenever the payload does not hold
  the key of that name.
\<close>

theorem merges_preserve_identity_fields:
  assumes "properties db = Some ps" and "findIndex (\<lambda>p. id' p = pid) ps = Some i"
  shows "(\<exists>r. refreshProperty pid data db
            = Inr \<lparr>returned = Record r, stored = db\<lparr>properties := Some (ps[i := r])\<rparr>, written = True\<rparr>
          \<and> id' r = id' (ps ! i) \<and> createdAt r = createdAt (ps ! i)
          \<and> ratings r = ratings (ps ! i) \<and> status r = status (ps ! i))
       \<and> (\<exists>r. updateProperty pid updates db
            = Inr \<lparr>returned = Record r, stored = db\<lparr>properties := Some (ps[i := r])\<rparr>, written = True\<rparr>
          \<and> (lit ''id'' \<notin> key_of ` set updates \<longrightarrow> id' r = id' (ps ! i))
          \<and> (lit ''createdAt'' \<notin> key_of ` set updates \<longrightarrow> createdAt r = createdAt (ps ! i))
          \<and> (lit ''ratings'' \<notin> key_of ` set updates \<longrightarrow> ratings r = ratings (ps ! i))
          \<and> (lit ''status'' \<notin> key_of ` set updates \<longrightarrow> status r = status (ps ! i)))"
proof
  have "id' (refresh_merge (ps ! i) data) = id' (ps ! i)"
    "createdAt (refresh_merge (ps ! i) data) = createdAt (ps ! i)"
    "ratings (refresh_merge (ps ! i) data) = ratings (ps ! i)"
    "status (refresh_merge (ps ! i) data) = status (ps ! i)"
    by (simp_all add: refresh_merge_def)
  then show "\<exists>r. refreshProperty pid data db
            = Inr \<lparr>returned = Record r, stored = db\<lparr>properties := Some (ps[i := r])\<rparr>, written = True\<rparr>
          \<and> id' r = id' (ps ! i) \<and> createdAt r = createdAt (ps ! i)
          \<and> ratings r = ratings (ps ! i) \<and> status r = status (ps ! i)"
    using refreshProperty_found[OF assms, of data] by blast
next
  have "lit ''id'' \<notin> key_of ` set updates \<longrightarrow> id' (update_merge (ps ! i) updates) = id' (ps ! i)"
    "lit ''createdAt'' \<notin> key_of ` set updates \<longrightarrow> createdAt (update_merge (ps ! i) updates) = createdAt (ps ! i)"
    "lit ''ratings'' \<notin> key_of ` set updates \<longrightarrow> ratings (update_merge (ps ! i) updates) = ratings (ps ! i)"
    "lit ''status'' \<notin> key_of ` set updates \<longrightarrow> status (update_merge (ps ! i) updates) = status (ps ! i)"
    by (simp_all add: update_merge_def spread_updates_id spread_updates_createdAt
        spread_updates_ratings spread_updates_status)
  then show "\<exists>r. updateProperty pid updates db
            = Inr \<lparr>returned = Record r, stored = db\<lparr>properties := Some (ps[i := r])\<rparr>, written = True\<rparr>
          \<and> (lit ''id'' \<notin> key_of ` set updates \<longrightarrow> id' r = id' (ps ! i))
          \<and> (lit ''createdAt'' \<notin> key_of ` set updates \<longrightarrow> createdAt r = createdAt (ps ! i))
          \<and> (lit ''ratings'' \<notin> key_of ` set updates \<longrightarrow> ratings r = ratings (ps ! i))
          \<and> (lit ''status'' \<notin> key_of ` set updates \<longrightarrow> status r = status (ps ! i))"
    using updateProperty_found[OF assms, of updates] by blast
qed

text \<open>
  The theorem at the example collection, with a refresh and with a manual edit of the price
  and the management fee.
\<close>

theorem merges_preserve_identity_fields_witness:
  "id' (refresh_merge example_property example_data) = lit ''p1''
   \<and> status (refresh_merge example_property example_data) = Considering
   \<and> id' (update_merge example_property [U_price (lit ''3500''), U_fees (Some \<lparr>management = Present (Num 9000), repair = Missing, parking = Missing\<rparr>)]) = lit ''p1''
   \<and> status (update_merge example_property [U_price (lit ''3500''), U_fees (Some \<lparr>management = Present (Num 9000), repair = Missing, parking = Missing\<rparr>)]) = Considering"
proof -
  let ?ups = "[U_price (lit ''3500''), U_fees (Some \<lparr>management = Present (Num 9000), repair = Missing, parking = Missing\<rparr>)]"
  have keys: "lit ''id'' \<notin> key_of ` set ?ups" "lit ''status'' \<notin> key_of ` set ?ups"
    by simp_all
  note inst = merges_preserve_identity_fields[OF example_properties example_found, of example_data ?ups]
  from conjunct1[OF inst] obtain r1 where
    o1: "refreshProperty (lit ''p1'') example_data example_db
        = Inr \<lparr>returned = Record r1, stored = example_db\<lparr>properties := Some ([example_property][0 := r1])\<rparr>, written = True\<rparr>"
    and f1: "id' r1 = id' ([example_property] ! 0)" "status r1 = status ([example_property] ! 0)"
    by (elim exE conjE) (rule that)
  from conjunct2[OF inst] obtain r2 where
    o2: "updateProperty (lit ''p1'') ?ups example_db
        = Inr \<lparr>returned = Record r2, stored = example_db\<lparr>properties := Some ([example_property][0 := r2])\<rparr>, written = True\<rparr>"
    and f2: "lit ''id'' \<notin> key_of ` set ?ups \<longrightarrow> id' r2 = id' ([example_property] ! 0)"
       "lit ''status'' \<notin> key_of ` set ?ups \<longrightarrow> status r2 = status ([example_property] ! 0)"
    by (elim exE conjE) (rule that)
  have r1: "r1 = refresh_merge example_property example_data"
    using o1 refreshProperty_found[OF example_properties example_found, of example_data] by simp
  have r2: "r2 = update_merge example_property ?ups"
    using o2 updateProperty_found[OF example_properties example_found, of ?ups] by simp
  show ?thesis
    using f1 f2 keys unfolding r1 r2 by (simp add: example_property_def)
qed

text \<open>
  Claim C2 as stated fails for \<open>updateProperty\<close>: a payload that holds the key
  \<^verbatim>\<open>status\<close> changes the status of the stored record, here from considering to viewed.
\<close>

theorem updateProperty_status_counterexample:
  "updateProperty (lit ''p1'') [U_status Viewed] example_db
     = Inr \<lparr>returned = Record (example_property\<lparr>status := Viewed\<rparr>),
            stored = example_db\<lparr>properties := Some [example_property\<lparr>status := Viewed\<rparr>]\<rparr>,
            written = True\<rparr>
   \<and> status example_property = Considering"
  by (simp add: updateProperty_def commit_def update_merge_def updates_fees_def new_Set_def set_add_def
      example_db_def example_property_def)

lemma update_merge_fees:
  "fees (update_merge current updates) = merged_fees (fees current) (updates_fees updates)"
  by (simp add: update_merge_def)

text \<open>
  Claim C3. For every collection and every stored property found by its identifier, whose
  fee bundle is \<open>fc\<close>: when the incoming fee bundle \<open>fd\<close> has no \<^verbatim>\<open>repair\<close> key, the
  record that \<open>refreshProperty\<close> returns and stores, and the record that \<open>updateProperty\<close>
  returns and stores, have a fee bundle whose \<^verbatim>\<open>repair\<close> is that of \<open>fc\<close>.
\<close>

theorem fee_bundle_partial_merge:
  assumes "properties db = Some ps" and "findIndex (\<lambda>p. id' p = pid) ps = Some i"
    and "fees (ps ! i) = Present fc" and "repair fd = Missing"
  shows "(fees data = Present fd \<longrightarrow>
           (\<exists>r fr. refreshProperty pid data db
              = Inr \<lparr>returned = Record r, stored = db\<lparr>properties := Some (ps[i := r])\<rparr>, written = True\<rparr>
            \<and> fees r = Present fr \<and> repair fr = repair fc))
       \<and> (updates_fees updates = Present fd \<longrightarrow>
           (\<exists>r fr. updateProperty pid updates db
              = Inr \<lparr>returned = Record r, stored = db\<lparr>properties := Some (ps[i := r])\<rparr>, written = True\<rparr>
            \<and> fees r = Present fr \<and> repair fr = repair fc))"
proof (intro conjI impI)
  assume d: "fees data = Present fd"
  obtain fr where fr: "fees (refresh_merge (ps ! i) data) = Present fr"
    by (simp add: refresh_merge_fees)
  have "repair fr = repair fc"
    using refresh_fee_absent[OF fr d assms(4)] assms(3) by simp
  then show "\<exists>r fr. refreshProperty pid data db
              = Inr \<lparr>returned = Record r, stored = db\<lparr>properties := Some (ps[i := r])\<rparr>, written = True\<rparr>
            \<and> fees r = Present fr \<and> repair fr = repair fc"
    using refreshProperty_found[OF assms(1,2), of data] fr by blast
next
  assume u: "updates_fees updates = Present fd"
  have fr: "fees (update_merge (ps ! i) updates) = Present (spread_fees fc fd)"
    using u assms(3) by (simp add: update_merge_fees)
  have "repair (spread_fees fc fd) = repair fc"
    using assms(4) by (simp add: spread_fees_def)
  then show "\<exists>r fr. updateProperty pid updates db
              = Inr \<lparr>returned = Record r, stored = db\<lparr>properties := Some (ps[i := r])\<rparr>, written = True\<rparr>
            \<and> fees r = Present fr \<and> repair fr = repair fc"
    using updateProperty_found[OF assms(1,2), of updates] fr by blast
qed

text \<open>
  The theorem at the example collection, whose property has a repair fee of 8000: after a
  refresh that extracted only a management fee, and after a manual edit of the management
  fee alone, the repair fee is 8000.
\<close>

theorem fee_bundle_partial_merge_witness:
  "fees (refresh_merge example_property example_data)
     = Present \<lparr>management = Present (Num 13000), repair = Present (Num 8000), parking = Missing\<rparr>
   \<and> fees (update_merge example_property
        [U_fees (Some \<lparr>management = Present (Num 9000), repair = Missing, parking = Missing\<rparr>)])
     = Present \<lparr>management = Present (Num 9000), repair = Present (Num 8000), parking = Missing\<rparr>"
proof -
  let ?fd = "\<lparr>management = Present (Num 9000), repair = Missing, parking = Missing\<rparr>"
  let ?fx = "\<lparr>management = Present (Num 13000), repair = Missing, parking = Missing\<rparr>"
  have fc: "fees ([example_property] ! 0) = Present example_fees"
    by (simp add: example_property_def)
  have uf: "updates_fees [U_fees (Some ?fd)] = Present ?fd"
    by (simp add: updates_fees_def)
  have df: "fees example_data = Present ?fx"
    by (simp add: example_data_def)
  have rd: "repair ?fd = Missing" and rx: "repair ?fx = Missing"
    by simp_all
  note thm_update = fee_bundle_partial_merge[OF example_properties example_found fc rd, of example_data "[U_fees (Some ?fd)]"]
  note thm_refresh = fee_bundle_partial_merge[OF example_properties example_found fc rx, of example_data "[]"]
  from mp[OF conjunct2[OF thm_update] uf] obtain r2 fr2 where
    o2: "updateProperty (lit ''p1'') [U_fees (Some ?fd)] example_db
        = Inr \<lparr>returned = Record r2, stored = example_db\<lparr>properties := Some ([example_property][0 := r2])\<rparr>, written = True\<rparr>"
    and f2: "fees r2 = Present fr2" "repair fr2 = repair example_fees"
    by (elim exE conjE) (rule that)
  from mp[OF conjunct1[OF thm_refresh] df] obtain r1 fr1 where
    o1: "refreshProperty (lit ''p1'') example_data example_db
        = Inr \<lparr>returned = Record r1, stored = example_db\<lparr>properties := Some ([example_property][0 := r1])\<rparr>, written = True\<rparr>"
    and f1: "fees r1 = Present fr1" "repair fr1 = repair example_fees"
    by (elim exE conjE) (rule that)
  have r1: "r1 = refresh_merge example_property example_data"
    using o1 refreshProperty_found[OF example_properties example_found, of example_data] by simp
  have r2: "r2 = update_merge example_property [U_fees (Some ?fd)]"
    using o2 updateProperty_found[OF example_properties example_found, of "[U_fees (Some ?fd)]"] by simp
  have m1: "management fr1 = Present (Num 13000)" "parking fr1 = Missing"
    using f1(1) unfolding r1
    by (auto simp: refresh_merge_fees example_property_def example_data_def example_fees_def
        spread_fees_def unless_edited_def)
  have m2: "management fr2 = Present (Num 9000)" "parking fr2 = Missing"
    using f2(1) unfolding r2
    by (auto simp: update_merge_fees updates_fees_def example_property_def example_fees_def spread_fees_def)
  have "fr1 = \<lparr>management = Present (Num 13000), repair = Present (Num 8000), parking = Missing\<rparr>"
    using m1 f1(2) by (cases fr1) (simp add: example_fees_def)
  moreover have "fr2 = \<lparr>management = Present (Num 9000), repair = Present (Num 8000), parking = Missing\<rparr>"
    using m2 f2(2) by (cases fr2) (simp add: example_fees_def)
  ultimately show ?thesis
    using f1(1) f2(1) unfolding r1 r2 by simp
qed

section \<open>The schema migrator\<close>

lemma renames_iff: "renames x \<longleftrightarrow> legacy_id x"
  by (auto simp: renames_def legacy_id_def rename_a_def)

lemma rename_id_current: "\<not> legacy_id x \<Longrightarrow> rename_id x = x"
  by (simp add: rename_id_def rename_a_def rename_b_def legacy_id_def)

lemma rename_id_not_legacy: "\<not> legacy_id (rename_id x)"
  by (simp add: rename_id_def rename_a_def rename_b_def legacy_id_def)

lemma not_legacy_u1_u2: "\<not> legacy_id (lit ''u1'')" "\<not> legacy_id (lit ''u2'')"
  by (simp_all add: legacy_id_def)

lemma migrate_ratings_current:
  "current_ratings rs \<Longrightarrow> migrate_ratings created rs = rs \<and> \<not> ratings_changed rs"
proof (cases rs)
  case (RatingList xs)
  assume "current_ratings rs"
  then have all: "\<forall>r\<in>set xs. \<not> legacy_id (userId r)"
    using RatingList by (simp add: list_all_iff)
  then have "map (\<lambda>r. r\<lparr>userId := rename_id (userId r)\<rparr>) xs = xs"
    by (induction xs) (simp_all add: rename_id_current)
  moreover have "\<not> list_ex (\<lambda>r. renames (userId r)) xs"
    using all by (simp add: list_ex_iff renames_iff)
  ultimately show ?thesis using RatingList by simp
qed simp_all

lemma migrate_properties_current:
  "current_properties ps \<Longrightarrow> migrate_properties ps = ps \<and> \<not> properties_changed ps"
proof (cases ps)
  case None
  then show ?thesis by simp
next
  case (Some xs)
  assume "current_properties ps"
  then have all: "\<forall>p\<in>set xs. current_ratings (ratings p)"
    using Some by (simp add: list_all_iff)
  then have "map migrate_prop xs = xs"
    by (induction xs) (simp_all add: migrate_prop_def migrate_ratings_current)
  moreover have "\<not> list_ex (\<lambda>p. ratings_changed (ratings p)) xs"
    using all by (auto simp: list_ex_iff migrate_ratings_current)
  ultimately show ?thesis using Some by simp
qed

lemma fix_user_ids_current:
  "current_users us \<Longrightarrow> fix_user_ids us = us \<and> \<not> user_ids_changed us"
proof (cases us)
  case None
  then show ?thesis by simp
next
  case (Some xs)
  assume "current_users us"
  then have all: "\<forall>u\<in>set xs. \<not> legacy_id (user_id u)"
    using Some by (simp add: list_all_iff)
  then have "map (\<lambda>u. u\<lparr>user_id := rename_id (user_id u)\<rparr>) xs = xs"
    by (induction xs) (simp_all add: rename_id_current)
  moreover have "\<not> list_ex (\<lambda>u. renames (user_id u)) xs"
    using all by (simp add: list_ex_iff renames_iff)
  ultimately show ?thesis using Some by simp
qed

lemma migrateDb_current:
  assumes "current_shape db"
  shows "migrateDb db = (db, False)"
proof -
  obtain st where st: "settings db = Some st" and ul: "\<not> lacks_users (users st)" "loan st \<noteq> None"
    using assms by (cases "settings db") (auto simp: current_shape_def current_shape_as_stated_def)
  have ms: "migrate_settings (settings db) = (st, False)"
    using st ul by simp
  have cu: "current_users (users st)"
    using assms st by (simp add: current_shape_def)
  have cp: "current_properties (properties db)"
    using assms by (simp add: current_shape_def current_shape_as_stated_def)
  have "migrated_settings db = st"
    using ms fix_user_ids_current[OF cu] by (simp add: migrated_settings_def)
  then show ?thesis
    using ms st fix_user_ids_current[OF cu] migrate_properties_current[OF cp]
    by (simp add: migrateDb_def)
qed

lemma current_ratings_migrated: "current_ratings (migrate_ratings created rs)"
proof (cases rs)
  case NoRatings
  then show ?thesis by simp
next
  case (LegacyRatings a b)
  have "\<And>uid x. \<not> legacy_id uid \<Longrightarrow> list_all (\<lambda>r. \<not> legacy_id (userId r)) (partner_entry uid created x)"
    subgoal for uid x by (cases x) simp_all
    done
  then show ?thesis using LegacyRatings by (simp add: not_legacy_u1_u2)
next
  case (RatingList xs)
  then show ?thesis by (simp add: list_all_iff rename_id_not_legacy)
qed

lemma current_properties_migrated: "current_properties (migrate_properties ps)"
  by (cases ps) (simp_all add: list_all_iff migrate_prop_def current_ratings_migrated)

lemma synth_users_facts:
  "synth_users old \<noteq> []" "list_all (\<lambda>u. \<not> legacy_id (user_id u)) (synth_users old)"
proof -
  have l: "\<And>uid d x. \<not> legacy_id uid \<Longrightarrow> list_all (\<lambda>u. \<not> legacy_id (user_id u)) (legacy_user uid d x)"
    subgoal for uid d x by (cases x) simp_all
    done
  show "synth_users old \<noteq> []"
    by (simp add: synth_users_def)
  show "list_all (\<lambda>u. \<not> legacy_id (user_id u)) (synth_users old)"
    using l by (simp add: synth_users_def legacy_users_def default_user_def not_legacy_u1_u2)
qed

lemma migrate_settings_shape:
  "\<not> lacks_users (users (fst (migrate_settings s))) \<and> loan (fst (migrate_settings s)) \<noteq> None"
proof (cases s)
  case None
  then show ?thesis using synth_users_facts(1)[of no_settings] by simp
next
  case (Some st)
  then show ?thesis using synth_users_facts(1)[of st] by (cases "users st") auto
qed

lemma fix_user_ids_shape:
  "lacks_users (fix_user_ids us) = lacks_users us \<and> current_users (fix_user_ids us)"
  by (cases us) (simp_all add: list_all_iff rename_id_not_legacy)

lemma current_shape_migrated: "current_shape (fst (migrateDb db))"
  using migrate_settings_shape[of "settings db"]
    fix_user_ids_shape[of "users (fst (migrate_settings (settings db)))"]
  by (simp add: migrateDb_def migrated_settings_def current_shape_def current_shape_as_stated_def
      current_properties_migrated)

text \<open>
  Claim C6, as amended. For every collection in the current shape, where the current shape
  also asks that no user of the settings has a legacy identifier, \<open>migrateDb\<close> changes
  nothing and does not call for a write; and for every collection whatever, the migrated
  collection is in that shape, so a second run changes nothing and does not call for a
  write.
\<close>

theorem migrateDb_idempotent:
  "(current_shape db \<longrightarrow> migrateDb db = (db, False))
   \<and> current_shape (fst (migrateDb db))
   \<and> migrateDb (fst (migrateDb db)) = (fst (migrateDb db), False)"
  using migrateDb_current[of db] migrateDb_current[OF current_shape_migrated[of db]]
    current_shape_migrated[of db]
  by blast

text \<open>The theorem at the default collection, which is in the current shape.\<close>

theorem migrateDb_idempotent_witness:
  "migrateDb defaultDb = (defaultDb, False)"
proof -
  have "current_shape defaultDb"
    by (simp add: current_shape_def current_shape_as_stated_def defaultDb_def default_user_def
        legacy_id_def)
  then show ?thesis
    using migrateDb_idempotent[of defaultDb] by blast
qed

text \<open>
  Claim C6 as stated fails: a collection whose settings have a non-empty user list and a
  loan bundle, and whose properties (none) have no legacy rating, is in the shape the claim
  describes; yet when its user has the identifier \<^verbatim>\<open>user-a\<close> the migration renames it
  and calls for a write.
\<close>

theorem migrateDb_legacy_user_counterexample:
  "current_shape_as_stated legacy_user_db
   \<and> migrateDb legacy_user_db
       = (legacy_user_db\<lparr>settings := Some \<lparr>users = Some [\<lparr>user_id = lit ''u1'', name = default_name1, icon = default_icon\<rparr>],
                                            loan = Some default_loan, partnerA = None, partnerB = None\<rparr>\<rparr>, True)"
  by (simp add: current_shape_as_stated_def legacy_user_db_def migrateDb_def migrated_settings_def
      renames_def rename_id_def rename_a_def rename_b_def legacy_id_def)

end
